theory Spec2Isabelle
  imports Complex_Main
begin

section \<open>Strings\<close>

text \<open>
  A JavaScript string is modelled by its UTF-8 bytes (\<^typ>\<open>string\<close>). Every needle the
  program searches for (\<open>429\<close>, \<open>quota\<close>, \<open>@\<close>, \<open>/\<close>, \<open>tiktok.com\<close>, ...) is ASCII, and an
  ASCII byte never occurs inside the UTF-8 encoding of another character, so searching
  the bytes finds exactly what searching the UTF-16 code units finds. The Vietnamese
  messages of the program are written out byte by byte.
\<close>

fun startsWith :: "string \<Rightarrow> string \<Rightarrow> bool" where
  "startsWith s [] = True"
| "startsWith [] (p # ps) = False"
| "startsWith (c # cs) (p # ps) = (c = p \<and> startsWith cs ps)"

text \<open>\<^verbatim>\<open>s.includes(t)\<close>\<close>

fun includes_js :: "string \<Rightarrow> string \<Rightarrow> bool" where
  "includes_js [] t = (t = [])"
| "includes_js (c # cs) t = (startsWith (c # cs) t \<or> includes_js cs t)"

text \<open>
  The canonicalisation of a regular expression with the \<^verbatim>\<open>i\<close> flag (and no \<^verbatim>\<open>u\<close> flag):
  a character is compared through its upper case, and a character outside ASCII is never
  identified with an ASCII one. The patterns of the program are plain ASCII texts.
\<close>

definition canonicalize :: "char \<Rightarrow> char" where
  "canonicalize c =
     (case map_of (zip ''abcdefghijklmnopqrstuvwxyz'' ''ABCDEFGHIJKLMNOPQRSTUVWXYZ'') c of
        Some u \<Rightarrow> u
      | None \<Rightarrow> c)"

text \<open>\<^verbatim>\<open>/pattern/i.test(s)\<close> for a pattern without metacharacters\<close>

definition test_i :: "string \<Rightarrow> string \<Rightarrow> bool" where
  "test_i pattern s = includes_js (map canonicalize s) (map canonicalize pattern)"

text \<open>\<^verbatim>\<open>s.split(sep)\<close> for a separator of one character\<close>

fun split_js :: "char \<Rightarrow> string \<Rightarrow> string list" where
  "split_js sep [] = [[]]"
| "split_js sep (c # cs) =
     (if c = sep then [] # split_js sep cs
      else (case split_js sep cs of
              [] \<Rightarrow> [[c]]
            | w # ws \<Rightarrow> (c # w) # ws))"

text \<open>The decimal rendering of a natural number in a template literal.\<close>

definition digit :: "nat \<Rightarrow> char" where
  "digit d = ''0123456789'' ! d"

function show_nat :: "nat \<Rightarrow> string" where
  "show_nat n = (if n < 10 then [digit n] else show_nat (n div 10) @ [digit (n mod 10)])"
  by pat_completeness auto
termination
  by (relation "measure (\<lambda>n. n)") auto

declare show_nat.simps [simp del]

section \<open>Thrown values and observable actions\<close>

text \<open>
  What a \<^verbatim>\<open>catch\<close> clause can receive: an \<^verbatim>\<open>Error\<close> object with its message, or a value
  that is not an \<^verbatim>\<open>Error\<close> (with its \<^verbatim>\<open>String(...)\<close> rendering).
\<close>

datatype thrown = ErrorObj string | NonError string

datatype item_status = Idle | Matched | Loading | Success | Error

text \<open>
  The effects of the program that leave it or that the operator sees per video, in the
  order in which they happen: network requests, the timer of the loop, and the writes to
  the per-video state and to the durable cache.
\<close>

datatype action =
    FetchAudio string
  | GenerateContent string string string
  | Sleep nat
  | SetTranscriptState string item_status string
  | SetTranscriptCache string string
  | ApifyTikTok string string int
  | ApifyFacebook string string int
  | FindUid string

section \<open>services/geminiService.ts\<close>

definition msg_key_required :: string where
  "msg_key_required =
     ''Google AI API Key is required.''"

definition msg_no_transcript :: string where
  "msg_no_transcript =
     ''Gemini kh'' @ [CHR 0xC3, CHR 0xB4] @ ''ng tr'' @ [CHR 0xE1, CHR 0xBA, CHR 0xA3] @ '' v'' @
     [CHR 0xE1, CHR 0xBB, CHR 0x81] @ '' l'' @ [CHR 0xE1, CHR 0xBB, CHR 0x9D] @ ''i tho'' @
     [CHR 0xE1, CHR 0xBA, CHR 0xA1] @ ''i.''"

definition msg_unknown_gemini :: string where
  "msg_unknown_gemini =
     ''L'' @ [CHR 0xE1, CHR 0xBB, CHR 0x97] @ ''i kh'' @ [CHR 0xC3, CHR 0xB4] @ ''ng x'' @
     [CHR 0xC3, CHR 0xA1] @ ''c '' @ [CHR 0xC4, CHR 0x91, CHR 0xE1, CHR 0xBB, CHR 0x8B] @
     ''nh khi g'' @ [CHR 0xE1, CHR 0xBB, CHR 0x8D] @ ''i Gemini.''"

definition msg_quota :: string where
  "msg_quota =
     [CHR 0xC4, CHR 0x90, CHR 0xC3, CHR 0xA3] @ '' '' @
     [CHR 0xC4, CHR 0x91, CHR 0xE1, CHR 0xBA, CHR 0xA1] @ ''t gi'' @
     [CHR 0xE1, CHR 0xBB, CHR 0x9B] @ ''i h'' @ [CHR 0xE1, CHR 0xBA, CHR 0xA1] @ ''n quota c'' @
     [CHR 0xE1, CHR 0xBB, CHR 0xA7] @ ''a Google AI (th'' @
     [CHR 0xC6, CHR 0xB0, CHR 0xE1, CHR 0xBB, CHR 0x9D] @ ''ng l'' @ [CHR 0xC3, CHR 0xA0] @
     '' 15 y'' @ [CHR 0xC3, CHR 0xAA] @ ''u c'' @ [CHR 0xE1, CHR 0xBA, CHR 0xA7] @ ''u/ph'' @
     [CHR 0xC3, CHR 0xBA] @ ''t). Vui l'' @ [CHR 0xC3, CHR 0xB2] @ ''ng '' @
     [CHR 0xC4, CHR 0x91, CHR 0xE1, CHR 0xBB, CHR 0xA3] @ ''i m'' @
     [CHR 0xE1, CHR 0xBB, CHR 0x99] @ ''t l'' @ [CHR 0xC3, CHR 0xA1] @ ''t r'' @
     [CHR 0xE1, CHR 0xBB, CHR 0x93] @ ''i th'' @ [CHR 0xE1, CHR 0xBB, CHR 0xAD] @ '' l'' @
     [CHR 0xE1, CHR 0xBA, CHR 0xA1] @ ''i.''"

definition msg_invalid_key :: string where
  "msg_invalid_key =
     ''Google AI API Key '' @
     [CHR 0xC4, CHR 0x91, CHR 0xC6, CHR 0xB0, CHR 0xE1, CHR 0xBB, CHR 0xA3] @ ''c cung c'' @
     [CHR 0xE1, CHR 0xBA, CHR 0xA5] @ ''p kh'' @ [CHR 0xC3, CHR 0xB4] @ ''ng h'' @
     [CHR 0xE1, CHR 0xBB, CHR 0xA3] @ ''p l'' @ [CHR 0xE1, CHR 0xBB, CHR 0x87] @ ''. Vui l'' @
     [CHR 0xC3, CHR 0xB2] @ ''ng ki'' @ [CHR 0xE1, CHR 0xBB, CHR 0x83] @ ''m tra l'' @
     [CHR 0xE1, CHR 0xBA, CHR 0xA1] @ ''i key c'' @ [CHR 0xE1, CHR 0xBB, CHR 0xA7] @ ''a b'' @
     [CHR 0xE1, CHR 0xBA, CHR 0xA1] @ ''n.''"

text \<open>
  What \<^verbatim>\<open>ai.models.generateContent\<close> does: it resolves to a response whose \<^verbatim>\<open>text\<close> is a
  string or undefined, or it rejects. The SDK is outside the repository, so the call is
  a parameter of the model: a function of the key, the MIME type and the data.
\<close>

datatype gen_response = GenResolves "string option" | GenRejects thrown

type_synonym gemini = "string \<Rightarrow> string \<Rightarrow> string \<Rightarrow> gen_response"

text \<open>The body of the \<^verbatim>\<open>try\<close> block: the value returned, or the value thrown inside it.\<close>

definition gemini_try :: "gen_response \<Rightarrow> thrown + string" where
  "gemini_try response =
     (case response of
        GenRejects e \<Rightarrow> Inl e
      | GenResolves None \<Rightarrow> Inl (ErrorObj msg_no_transcript)
      | GenResolves (Some transcript) \<Rightarrow>
          (if transcript = [] then Inl (ErrorObj msg_no_transcript) else Inr transcript))"

text \<open>The two tests of the \<^verbatim>\<open>catch\<close> block, in the order of the source.\<close>

definition is_quota_message :: "string \<Rightarrow> bool" where
  "is_quota_message errorMessage \<longleftrightarrow>
     includes_js errorMessage ''429'' \<or> test_i ''rate limit'' errorMessage \<or> test_i ''quota'' errorMessage"

definition is_invalid_key_message :: "string \<Rightarrow> bool" where
  "is_invalid_key_message errorMessage \<longleftrightarrow>
     test_i ''API_KEY_INVALID'' errorMessage \<or> includes_js errorMessage ''400''"

definition gemini_catch :: "thrown \<Rightarrow> thrown" where
  "gemini_catch error =
     (let errorMessage = (case error of ErrorObj m \<Rightarrow> m | NonError _ \<Rightarrow> msg_unknown_gemini) in
      if is_quota_message errorMessage then ErrorObj msg_quota
      else if is_invalid_key_message errorMessage then ErrorObj msg_invalid_key
      else ErrorObj errorMessage)"

text \<open>
  The result is the list of requests made and the value returned (\<open>Inr\<close>) or thrown
  (\<open>Inl\<close>). The key is tested before the \<^verbatim>\<open>try\<close> block, so its error is not classified.
\<close>

definition transcribeAudioWithGemini ::
    "gemini \<Rightarrow> string \<Rightarrow> string \<Rightarrow> string \<Rightarrow> action list \<times> (thrown + string)" where
  "transcribeAudioWithGemini generateContent googleApiKey base64Media mimeType =
     (if googleApiKey = [] then ([], Inl (ErrorObj msg_key_required))
      else
        ([GenerateContent googleApiKey mimeType base64Media],
         (case gemini_try (generateContent googleApiKey mimeType base64Media) of
            Inr transcript \<Rightarrow> Inr transcript
          | Inl error \<Rightarrow> Inl (gemini_catch error))))"

section \<open>JavaScript values\<close>

text \<open>
  The values that \<^verbatim>\<open>response.json()\<close> can produce, and \<^verbatim>\<open>undefined\<close> and \<^verbatim>\<open>NaN\<close>, which
  property access and arithmetic add. A number is a rational: the rounding and the
  overflow of IEEE doubles are outside the model. An object is the list of its own
  properties, each key once.
\<close>

datatype jsval =
    JUndefined
  | JNull
  | JBool bool
  | JNum rat
  | JNaN
  | JStr string
  | JArr "jsval list"
  | JObj "(string \<times> jsval) list"

definition nullish :: "jsval \<Rightarrow> bool" where
  "nullish v \<longleftrightarrow> v = JUndefined \<or> v = JNull"

definition truthy :: "jsval \<Rightarrow> bool" where
  "truthy v \<longleftrightarrow>
     \<not> (v = JUndefined \<or> v = JNull \<or> v = JBool False \<or> v = JNum 0 \<or> v = JNaN \<or> v = JStr [])"

text \<open>\<^verbatim>\<open>a ?? b\<close> and \<^verbatim>\<open>a || b\<close>\<close>

definition coalesce :: "jsval \<Rightarrow> jsval \<Rightarrow> jsval" where
  "coalesce a b = (if nullish a then b else a)"

definition or_js :: "jsval \<Rightarrow> jsval \<Rightarrow> jsval" where
  "or_js a b = (if truthy a then a else b)"

text \<open>
  \<^verbatim>\<open>v?.k\<close>, and \<^verbatim>\<open>v.k\<close> where \<open>v\<close> is neither null nor undefined, for a key \<open>k\<close> that is not
  a built-in property of strings or arrays (none of the keys the program reads is).
\<close>

definition get_prop :: "jsval \<Rightarrow> string \<Rightarrow> jsval" where
  "get_prop v k =
     (case v of
        JObj kvs \<Rightarrow> (case map_of kvs k of Some x \<Rightarrow> x | None \<Rightarrow> JUndefined)
      | _ \<Rightarrow> JUndefined)"

text \<open>
  The parts of the JavaScript runtime that the program calls and that are not part of
  the repository are parameters of the model:
  \<^item> \<open>trim\<close> and \<open>toLowerCase\<close>, the string methods (both aware of Unicode);
  \<^item> \<open>URL_pathname u\<close>, the \<^verbatim>\<open>pathname\<close> of \<^verbatim>\<open>new URL(u)\<close>, or \<open>None\<close> when the constructor
    throws;
  \<^item> \<open>URL_search_id u\<close>, the value of the parameter \<^verbatim>\<open>id\<close> in the query of \<^verbatim>\<open>new URL(u)\<close>, or
    \<open>None\<close> when the query has none;
  \<^item> \<open>String_other\<close> and \<open>Number_other\<close>, the conversions to a string and to a number
    (\<open>None\<close> is \<^verbatim>\<open>NaN\<close>) of a value that is not one already;
  \<^item> \<open>toISOString v\<close>, the result of \<^verbatim>\<open>new Date(v).toISOString()\<close>, which throws for a time
    that is out of range;
  \<^item> \<open>TypeError_of_null\<close>, the error thrown by reading a property of \<^verbatim>\<open>null\<close>.
\<close>

record js =
  trim :: "string \<Rightarrow> string"
  toLowerCase :: "string \<Rightarrow> string"
  URL_pathname :: "string \<Rightarrow> string option"
  URL_search_id :: "string \<Rightarrow> string option"
  String_other :: "jsval \<Rightarrow> string"
  Number_other :: "jsval \<Rightarrow> rat option"
  toISOString :: "jsval \<Rightarrow> thrown + string"
  TypeError_of_null :: thrown

text \<open>\<^verbatim>\<open>String(v)\<close>, which is also the conversion of a property key and of a template hole\<close>

definition to_str :: "js \<Rightarrow> jsval \<Rightarrow> string" where
  "to_str rt v = (case v of JStr s \<Rightarrow> s | _ \<Rightarrow> String_other rt v)"

text \<open>\<^verbatim>\<open>Number(v)\<close>; \<open>None\<close> is \<^verbatim>\<open>NaN\<close>\<close>

definition to_num :: "js \<Rightarrow> jsval \<Rightarrow> rat option" where
  "to_num rt v =
     (case v of
        JNum r \<Rightarrow> Some r
      | JNaN \<Rightarrow> None
      | JUndefined \<Rightarrow> None
      | JNull \<Rightarrow> Some 0
      | JBool b \<Rightarrow> Some (if b then 1 else 0)
      | _ \<Rightarrow> Number_other rt v)"

definition times_js :: "js \<Rightarrow> jsval \<Rightarrow> rat \<Rightarrow> jsval" where
  "times_js rt v c = (case to_num rt v of Some r \<Rightarrow> JNum (r * c) | None \<Rightarrow> JNaN)"

definition divide_js :: "js \<Rightarrow> jsval \<Rightarrow> rat \<Rightarrow> jsval" where
  "divide_js rt v c = (case to_num rt v of Some r \<Rightarrow> JNum (r / c) | None \<Rightarrow> JNaN)"

section \<open>types.ts\<close>

text \<open>
  The interface gives every field a type, but the types are erased when the program
  runs and the mappers copy whatever the scraper returned, so a field holds a value.
\<close>

record AuthorMeta =
  name :: jsval
  nickName :: jsval
  avatar :: jsval

record VideoMeta =
  duration :: jsval
  height :: jsval
  width :: jsval

record MusicMeta =
  musicName :: jsval
  musicAuthor :: jsval
  musicOriginal :: jsval

record SocialVideo =
  id_v :: jsval
  webVideoUrl :: jsval
  "text" :: jsval
  createTime :: jsval
  createTimeISO :: jsval
  authorMeta :: AuthorMeta
  diggCount :: jsval
  commentCount :: jsval
  shareCount :: jsval
  playCount :: jsval
  videoMeta :: VideoMeta
  musicMeta :: MusicMeta

record TranscriptEntry =
  status :: item_status
  "text" :: string

type_synonym TranscriptState = "string \<rightharpoonup> TranscriptEntry"

type_synonym TranscriptCache = "string \<rightharpoonup> string"

datatype AppStep = Scan | Match | Results

section \<open>The controller (App)\<close>

subsection \<open>State\<close>

text \<open>
  The React state of the component, the \<^verbatim>\<open>stopRequest\<close> reference, and the list of the
  actions performed so far. \<^verbatim>\<open>mp3Links\<close> and \<^verbatim>\<open>transcriptCache\<close> are held through the hook
  \<^verbatim>\<open>useLocalStorage\<close>, which keeps them in local storage.
\<close>

record App =
  step :: AppStep
  googleApiKey :: string
  apifyToken :: string
  channelUrl :: string
  resultsLimit :: int
  isProcessing :: bool
  status :: string
  videos :: "SocialVideo list"
  mp3Links :: "string \<rightharpoonup> string"
  transcriptStates :: TranscriptState
  transcriptCache :: TranscriptCache
  retryingIds :: "jsval set"
  stopRequest :: bool
  actions :: "action list"

definition perform :: "action list \<Rightarrow> App \<Rightarrow> App" where
  "perform acts s = s\<lparr>actions := actions s @ acts\<rparr>"

definition setStatus :: "string \<Rightarrow> App \<Rightarrow> App" where
  "setStatus m s = s\<lparr>status := m\<rparr>"

text \<open>\<^verbatim>\<open>setTranscriptStates(prev => ({ ...prev, [url]: { status, text } }))\<close>\<close>

definition setTranscriptState :: "string \<Rightarrow> item_status \<Rightarrow> string \<Rightarrow> App \<Rightarrow> App" where
  "setTranscriptState url st txt s =
     s\<lparr>transcriptStates :=
           (transcriptStates s)(url \<mapsto> \<lparr>TranscriptEntry.status = st, TranscriptEntry.text = txt\<rparr>),
       actions := actions s @ [SetTranscriptState url st txt]\<rparr>"

text \<open>
  Modelled from the spec: the hook \<^verbatim>\<open>useLocalStorage\<close> (\<^verbatim>\<open>hooks/useLocalStorage\<close>) is not
  among the sources. The specification has the transcript cache as a durable map from the
  source URL to the final transcript, read at startup and written on every mutation, so
  the setter that the hook returns is a state setter:
  \<^verbatim>\<open>setTranscriptCache(prev => ({ ...prev, [url]: transcript }))\<close> stores the transcript
  under the key and leaves the other entries as they are.
\<close>

definition setTranscriptCache :: "string \<Rightarrow> string \<Rightarrow> App \<Rightarrow> App" where
  "setTranscriptCache url transcript s =
     s\<lparr>transcriptCache := (transcriptCache s)(url \<mapsto> transcript),
       actions := actions s @ [SetTranscriptCache url transcript]\<rparr>"

text \<open>
  The truth value of \<^verbatim>\<open>m[url]\<close> for an object \<open>m\<close> of strings: defined and not empty (for a
  key that is not the name of a built-in property of every object, such as
  \<^verbatim>\<open>constructor\<close>).
\<close>

definition has_entry :: "(string \<rightharpoonup> string) \<Rightarrow> string \<Rightarrow> bool" where
  "has_entry m url = (case m url of None \<Rightarrow> False | Some v \<Rightarrow> v \<noteq> [])"

text \<open>
  \<^verbatim>\<open>mp3Links[url]\<close> as the argument of \<^verbatim>\<open>fetch\<close>, which turns a missing entry into the
  text \<^verbatim>\<open>undefined\<close>.
\<close>

definition mp3_of :: "(string \<rightharpoonup> string) \<Rightarrow> string \<Rightarrow> string" where
  "mp3_of links url = (case links url of Some l \<Rightarrow> l | None \<Rightarrow> ''undefined'')"

text \<open>\<^verbatim>\<open>video.webVideoUrl\<close> used as the key of the three maps\<close>

definition url_of :: "js \<Rightarrow> SocialVideo \<Rightarrow> string" where
  "url_of rt video = to_str rt (webVideoUrl video)"

subsection \<open>Messages\<close>

definition msg_download_failed :: "string" where
  "msg_download_failed =
     ''Kh'' @ [CHR 0xC3, CHR 0xB4] @ ''ng th'' @ [CHR 0xE1, CHR 0xBB, CHR 0x83] @ '' t'' @
     [CHR 0xE1, CHR 0xBA, CHR 0xA3] @ ''i t'' @ [CHR 0xE1, CHR 0xBB, CHR 0x87] @ ''p '' @
     [CHR 0xC3, CHR 0xA2] @ ''m thanh. '' @ [CHR 0xC4, CHR 0x90, CHR 0xC3, CHR 0xA2] @ ''y c'' @
     [CHR 0xC3, CHR 0xB3] @ '' th'' @ [CHR 0xE1, CHR 0xBB, CHR 0x83] @ '' l'' @
     [CHR 0xC3, CHR 0xA0] @ '' s'' @ [CHR 0xE1, CHR 0xBB, CHR 0xB1] @ '' c'' @
     [CHR 0xE1, CHR 0xBB, CHR 0x91] @ '' CORS ho'' @ [CHR 0xE1, CHR 0xBA, CHR 0xB7] @
     ''c URL kh'' @ [CHR 0xC3, CHR 0xB4] @ ''ng h'' @ [CHR 0xE1, CHR 0xBB, CHR 0xA3] @ ''p l'' @
     [CHR 0xE1, CHR 0xBB, CHR 0x87] @ ''.''"

definition msg_base64_failed :: "string" where
  "msg_base64_failed =
     ''Could not convert file to base64.''"

definition msg_unknown_error :: "string" where
  "msg_unknown_error =
     ''Unknown error''"

definition msg_transcribe_start :: "string" where
  "msg_transcribe_start =
     ''B'' @ [CHR 0xE1, CHR 0xBA, CHR 0xAF] @ ''t '' @
     [CHR 0xC4, CHR 0x91, CHR 0xE1, CHR 0xBA, CHR 0xA7] @ ''u phi'' @ [CHR 0xC3, CHR 0xAA] @
     ''n '' @ [CHR 0xC3, CHR 0xA2] @ ''m. C'' @ [CHR 0xC3, CHR 0xB3] @ '' '' @
     [CHR 0xC4, CHR 0x91, CHR 0xE1, CHR 0xBB, CHR 0x99] @ '' tr'' @
     [CHR 0xE1, CHR 0xBB, CHR 0x85] @ '' gi'' @ [CHR 0xE1, CHR 0xBB, CHR 0xAF] @ ''a c'' @
     [CHR 0xC3, CHR 0xA1] @ ''c y'' @ [CHR 0xC3, CHR 0xAA] @ ''u c'' @
     [CHR 0xE1, CHR 0xBA, CHR 0xA7] @ ''u '' @ [CHR 0xC4, CHR 0x91, CHR 0xE1, CHR 0xBB, CHR 0x83] @
     '' tu'' @ [CHR 0xC3, CHR 0xA2] @ ''n th'' @ [CHR 0xE1, CHR 0xBB, CHR 0xA7] @ '' gi'' @
     [CHR 0xE1, CHR 0xBB, CHR 0x9B] @ ''i h'' @ [CHR 0xE1, CHR 0xBA, CHR 0xA1] @ ''n API c'' @
     [CHR 0xE1, CHR 0xBB, CHR 0xA7] @ ''a Google.''"

definition msg_nothing_to_do :: "string" where
  "msg_nothing_to_do =
     ''Ho'' @ [CHR 0xC3, CHR 0xA0] @ ''n t'' @ [CHR 0xE1, CHR 0xBA, CHR 0xA5] @ ''t. Kh'' @
     [CHR 0xC3, CHR 0xB4] @ ''ng c'' @ [CHR 0xC3, CHR 0xB3] @ '' video m'' @
     [CHR 0xE1, CHR 0xBB, CHR 0x9B] @ ''i n'' @ [CHR 0xC3, CHR 0xA0] @ ''o '' @
     [CHR 0xC4, CHR 0x91, CHR 0xC6, CHR 0xB0, CHR 0xE1, CHR 0xBB, CHR 0xA3] @ ''c cung c'' @
     [CHR 0xE1, CHR 0xBA, CHR 0xA5] @ ''p link MP3 '' @
     [CHR 0xC4, CHR 0x91, CHR 0xE1, CHR 0xBB, CHR 0x83] @ '' phi'' @ [CHR 0xC3, CHR 0xAA] @
     ''n '' @ [CHR 0xC3, CHR 0xA2] @ ''m.''"

definition msg_stopped :: "nat \<Rightarrow> string" where
  "msg_stopped successCount =
     ''Qu'' @ [CHR 0xC3, CHR 0xA1] @ '' tr'' @ [CHR 0xC3, CHR 0xAC] @ ''nh '' @
     [CHR 0xC4, CHR 0x91, CHR 0xC3, CHR 0xA3] @ '' '' @
     [CHR 0xC4, CHR 0x91, CHR 0xC6, CHR 0xB0, CHR 0xE1, CHR 0xBB, CHR 0xA3] @ ''c ng'' @
     [CHR 0xC6, CHR 0xB0, CHR 0xE1, CHR 0xBB, CHR 0x9D] @ ''i d'' @ [CHR 0xC3, CHR 0xB9] @
     ''ng d'' @ [CHR 0xE1, CHR 0xBB, CHR 0xAB] @ ''ng l'' @ [CHR 0xE1, CHR 0xBA, CHR 0xA1] @
     ''i. '' @ show_nat successCount @ '' b'' @ [CHR 0xE1, CHR 0xBA, CHR 0xA3] @ ''n ghi m'' @
     [CHR 0xE1, CHR 0xBB, CHR 0x9B] @ ''i '' @ [CHR 0xC4, CHR 0x91, CHR 0xC3, CHR 0xA3] @ '' '' @
     [CHR 0xC4, CHR 0x91, CHR 0xC6, CHR 0xB0, CHR 0xE1, CHR 0xBB, CHR 0xA3] @ ''c t'' @
     [CHR 0xE1, CHR 0xBA, CHR 0xA1] @ ''o.''"

definition msg_processing :: "nat \<Rightarrow> nat \<Rightarrow> string \<Rightarrow> string" where
  "msg_processing i n nick =
     [CHR 0xC4, CHR 0x90] @ ''ang x'' @ [CHR 0xE1, CHR 0xBB, CHR 0xAD] @ '' l'' @
     [CHR 0xC3, CHR 0xBD] @ '' '' @ show_nat i @ ''/'' @ show_nat n @ '': '' @ nick"

definition msg_downloading :: "string" where
  "msg_downloading =
     [CHR 0xC4, CHR 0x90] @ ''ang t'' @ [CHR 0xE1, CHR 0xBA, CHR 0xA3] @ ''i MP3...''"

definition msg_transcribing :: "string" where
  "msg_transcribing =
     [CHR 0xC4, CHR 0x90] @ ''ang phi'' @ [CHR 0xC3, CHR 0xAA] @ ''n '' @ [CHR 0xC3, CHR 0xA2] @
     ''m v'' @ [CHR 0xE1, CHR 0xBB, CHR 0x9B] @ ''i AI...''"

definition msg_error :: "string \<Rightarrow> string" where
  "msg_error errorMessage =
     ''L'' @ [CHR 0xE1, CHR 0xBB, CHR 0x97] @ ''i: '' @ errorMessage"

definition msg_done :: "nat \<Rightarrow> string" where
  "msg_done successCount =
     ''Ho'' @ [CHR 0xC3, CHR 0xA0] @ ''n t'' @ [CHR 0xE1, CHR 0xBA, CHR 0xA5] @ ''t! '' @
     [CHR 0xC4, CHR 0x90, CHR 0xC3, CHR 0xA3] @ '' t'' @ [CHR 0xE1, CHR 0xBA, CHR 0xA1] @ ''o m'' @
     [CHR 0xE1, CHR 0xBB, CHR 0x9B] @ ''i '' @ show_nat successCount @ '' b'' @
     [CHR 0xE1, CHR 0xBA, CHR 0xA3] @ ''n ghi.''"

definition msg_no_mp3_link :: "string" where
  "msg_no_mp3_link =
     ''L'' @ [CHR 0xE1, CHR 0xBB, CHR 0x97] @ ''i: Kh'' @ [CHR 0xC3, CHR 0xB4] @ ''ng t'' @
     [CHR 0xC3, CHR 0xAC] @ ''m th'' @ [CHR 0xE1, CHR 0xBA, CHR 0xA5] @ ''y link MP3.''"

definition msg_stop_requested :: "string" where
  "msg_stop_requested =
     [CHR 0xC4, CHR 0x90] @ ''ang y'' @ [CHR 0xC3, CHR 0xAA] @ ''u c'' @
     [CHR 0xE1, CHR 0xBA, CHR 0xA7] @ ''u d'' @ [CHR 0xE1, CHR 0xBB, CHR 0xAB] @ ''ng...''"


subsection \<open>getBase64FromUrl\<close>

text \<open>
  What \<^verbatim>\<open>fetch(url)\<close> and the \<^verbatim>\<open>FileReader\<close> do for an audio link: the request or the
  reading of the body throws, or there is a response with its \<^verbatim>\<open>ok\<close> flag, the type of
  its blob, and what the reader produced.
\<close>

datatype reader_result = ReaderLoaded string | ReaderError

datatype audio_response = FetchThrows | AudioResponse bool string reader_result

text \<open>
  The promise of the reader is returned from inside the \<^verbatim>\<open>try\<close> block without being
  awaited there, so its rejection is not replaced by the download message: the caller
  receives the base64 error, or the event (not an \<^verbatim>\<open>Error\<close>) passed to \<^verbatim>\<open>onerror\<close>.
\<close>

definition getBase64FromUrl ::
    "(string \<Rightarrow> audio_response) \<Rightarrow> string \<Rightarrow> action list \<times> (thrown + string \<times> string)" where
  "getBase64FromUrl fetch url =
     ([FetchAudio url],
      (case fetch url of
         FetchThrows \<Rightarrow> Inl (ErrorObj msg_download_failed)
       | AudioResponse ok mimeType reader \<Rightarrow>
           (if \<not> ok then Inl (ErrorObj msg_download_failed)
            else
              (case reader of
                 ReaderError \<Rightarrow> Inl (NonError ''[object ProgressEvent]'')
               | ReaderLoaded dataUrl \<Rightarrow>
                   (case split_js (CHR '','') dataUrl of
                      _ # base64 # _ \<Rightarrow>
                        (if base64 \<noteq> [] then Inr (base64, mimeType)
                         else Inl (ErrorObj msg_base64_failed))
                    | _ \<Rightarrow> Inl (ErrorObj msg_base64_failed))))))"

subsection \<open>handleTranscribe\<close>

text \<open>The two services as one transcription attempt sees them.\<close>

record network =
  fetch_audio :: "string \<Rightarrow> audio_response"
  generateContent :: gemini

text \<open>
  What surrounds one run of the loop: the answers of the network to the attempt at each
  index, and whether the operator presses the stop button while the item at an index is
  in flight, or during the pause that follows it.
\<close>

record run_env =
  net :: "nat \<Rightarrow> network"
  stop_during_item :: "nat \<Rightarrow> bool"
  stop_during_delay :: "nat \<Rightarrow> bool"

definition API_CALL_DELAY_MS :: nat where
  "API_CALL_DELAY_MS = 6000"

text \<open>\<^verbatim>\<open>error instanceof Error ? error.message : 'Unknown error'\<close>\<close>

definition catch_message :: "thrown \<Rightarrow> string" where
  "catch_message error = (case error of ErrorObj m \<Rightarrow> m | NonError _ \<Rightarrow> msg_unknown_error)"

definition handleStopProcessing :: "App \<Rightarrow> App" where
  "handleStopProcessing s = setStatus msg_stop_requested (s\<lparr>stopRequest := True\<rparr>)"

text \<open>
  The body of the loop from \<^verbatim>\<open>const video = videosToProcess[i]\<close> to the end of the
  \<^verbatim>\<open>try\<close> statement, on the success count and the state.
\<close>

definition loop_item ::
    "js \<Rightarrow> network \<Rightarrow> string \<Rightarrow> (string \<rightharpoonup> string) \<Rightarrow> SocialVideo list \<Rightarrow> nat
      \<Rightarrow> nat \<times> App \<Rightarrow> nat \<times> App" where
  "loop_item rt nw apiKey links videosToProcess i cs =
     (let successCount = fst cs;
          s = snd cs;
          video = videosToProcess ! i;
          url = url_of rt video;
          mp3Url = mp3_of links url;
          s1 = setStatus
                 (msg_processing (i + 1) (length videosToProcess)
                    (to_str rt (nickName (authorMeta video)))) s;
          s2 = setTranscriptState url Loading msg_downloading s1;
          download = getBase64FromUrl (fetch_audio nw) mp3Url;
          s3 = perform (fst download) s2
      in case snd download of
           Inl error \<Rightarrow>
             (successCount, setTranscriptState url Error (msg_error (catch_message error)) s3)
         | Inr (base64, mimeType) \<Rightarrow>
             (let s4 = setTranscriptState url Loading msg_transcribing s3;
                  answer = transcribeAudioWithGemini (generateContent nw) apiKey base64 mimeType;
                  s5 = perform (fst answer) s4
              in case snd answer of
                   Inr transcript \<Rightarrow>
                     (successCount + 1,
                      setTranscriptCache url transcript
                        (setTranscriptState url Success transcript s5))
                 | Inl error \<Rightarrow>
                     (successCount,
                      setTranscriptState url Error (msg_error (catch_message error)) s5)))"

text \<open>
  The pause after the item at index \<open>i\<close>: skipped after the last item and when a stop has
  been requested.
\<close>

definition loop_delay :: "run_env \<Rightarrow> nat \<Rightarrow> nat \<Rightarrow> App \<Rightarrow> App" where
  "loop_delay env n i s =
     (if i < n - 1 \<and> \<not> stopRequest s then
        (let s' = perform [Sleep API_CALL_DELAY_MS] s
         in if stop_during_delay env i then handleStopProcessing s' else s')
      else s)"

text \<open>
  One pass through the body of the loop with the flag clear: the item, a press of the
  stop button while it is in flight, and the pause.
\<close>

definition loop_body ::
    "js \<Rightarrow> run_env \<Rightarrow> string \<Rightarrow> (string \<rightharpoonup> string) \<Rightarrow> SocialVideo list \<Rightarrow> nat
      \<Rightarrow> nat \<times> App \<Rightarrow> nat \<times> App" where
  "loop_body rt env apiKey links videosToProcess i cs =
     (let cs1 = loop_item rt (net env i) apiKey links videosToProcess i cs;
          s1 = (if stop_during_item env i then handleStopProcessing (snd cs1) else snd cs1);
          s2 = loop_delay env (length videosToProcess) i s1
      in (fst cs1, s2))"

text \<open>The \<^verbatim>\<open>for\<close> loop, from index \<open>i\<close> on.\<close>

function transcribe_loop ::
    "js \<Rightarrow> run_env \<Rightarrow> string \<Rightarrow> (string \<rightharpoonup> string) \<Rightarrow> SocialVideo list \<Rightarrow> nat
      \<Rightarrow> nat \<times> App \<Rightarrow> nat \<times> App" where
  "transcribe_loop rt env apiKey links videosToProcess i cs =
     (if i < length videosToProcess then
        (if stopRequest (snd cs) then (fst cs, setStatus (msg_stopped (fst cs)) (snd cs))
         else
           transcribe_loop rt env apiKey links videosToProcess (i + 1)
             (loop_body rt env apiKey links videosToProcess i cs))
      else cs)"
  by pat_completeness auto
termination
  by (relation "measure (\<lambda>(rt, env, apiKey, links, vs, i, cs). length vs - i)") auto

declare transcribe_loop.simps [simp del]

text \<open>\<^verbatim>\<open>videos.filter(v => mp3Links[v.webVideoUrl] && !transcriptCache[v.webVideoUrl])\<close>\<close>

definition eligible :: "js \<Rightarrow> App \<Rightarrow> SocialVideo list" where
  "eligible rt s =
     filter (\<lambda>v. has_entry (mp3Links s) (url_of rt v) \<and> \<not> has_entry (transcriptCache s) (url_of rt v))
       (videos s)"

text \<open>The first four statements of the handler.\<close>

definition transcribe_start :: "App \<Rightarrow> App" where
  "transcribe_start s =
     setStatus msg_transcribe_start (s\<lparr>stopRequest := False, isProcessing := True, step := Results\<rparr>)"

definition handleTranscribe :: "js \<Rightarrow> run_env \<Rightarrow> App \<Rightarrow> App" where
  "handleTranscribe rt env s =
     (let s1 = transcribe_start s;
          videosToProcess = eligible rt s
      in if length videosToProcess = 0 then (setStatus msg_nothing_to_do s1)\<lparr>isProcessing := False\<rparr>
         else
           (let cs = transcribe_loop rt env (googleApiKey s) (mp3Links s) videosToProcess 0 (0, s1);
                s2 = (if \<not> stopRequest (snd cs) then setStatus (msg_done (fst cs)) (snd cs)
                      else snd cs)
            in s2\<lparr>isProcessing := False\<rparr>))"

subsection \<open>handleRetry\<close>

definition handleRetry :: "js \<Rightarrow> network \<Rightarrow> SocialVideo \<Rightarrow> App \<Rightarrow> App" where
  "handleRetry rt nw videoToRetry s =
     (let url = url_of rt videoToRetry
      in if \<not> has_entry (mp3Links s) url then
           setTranscriptState url Error msg_no_mp3_link s
         else
           (let mp3Url = mp3_of (mp3Links s) url;
                s1 = s\<lparr>retryingIds := insert (id_v videoToRetry) (retryingIds s)\<rparr>;
                s2 = setTranscriptState url Loading msg_downloading s1;
                download = getBase64FromUrl (fetch_audio nw) mp3Url;
                s3 = perform (fst download) s2;
                s6 =
                  (case snd download of
                     Inl error \<Rightarrow>
                       setTranscriptState url Error (msg_error (catch_message error)) s3
                   | Inr (base64, mimeType) \<Rightarrow>
                       (let s4 = setTranscriptState url Loading msg_transcribing s3;
                            answer = transcribeAudioWithGemini (generateContent nw)
                                       (googleApiKey s) base64 mimeType;
                            s5 = perform (fst answer) s4
                        in case snd answer of
                             Inr transcript \<Rightarrow>
                               setTranscriptCache url transcript
                                 (setTranscriptState url Success transcript s5)
                           | Inl error \<Rightarrow>
                               setTranscriptState url Error (msg_error (catch_message error)) s5))
            in s6\<lparr>retryingIds := retryingIds s6 - {id_v videoToRetry}\<rparr>))"

subsection \<open>Observations on a run\<close>

text \<open>
  The outcome of the two-phase call for one item: the download, and the transcription
  of what was downloaded.
\<close>

definition attempt :: "network \<Rightarrow> string \<Rightarrow> string \<Rightarrow> thrown + string" where
  "attempt nw apiKey mp3Url =
     (case snd (getBase64FromUrl (fetch_audio nw) mp3Url) of
        Inl error \<Rightarrow> Inl error
      | Inr (base64, mimeType) \<Rightarrow>
          snd (transcribeAudioWithGemini (generateContent nw) apiKey base64 mimeType))"

definition succeeded :: "thrown + string \<Rightarrow> bool" where
  "succeeded r = (case r of Inr _ \<Rightarrow> True | Inl _ \<Rightarrow> False)"

text \<open>The per-video state that records an outcome.\<close>

definition outcome_entry :: "thrown + string \<Rightarrow> TranscriptEntry" where
  "outcome_entry r =
     (case r of
        Inr transcript \<Rightarrow> \<lparr>TranscriptEntry.status = Success, TranscriptEntry.text = transcript\<rparr>
      | Inl error \<Rightarrow>
          \<lparr>TranscriptEntry.status = Error, TranscriptEntry.text = msg_error (catch_message error)\<rparr>)"

text \<open>What an outcome does to the durable cache: only a transcript is stored.\<close>

definition cache_after :: "thrown + string \<Rightarrow> string \<Rightarrow> TranscriptCache \<Rightarrow> TranscriptCache" where
  "cache_after r url cache = (case r of Inr transcript \<Rightarrow> cache(url \<mapsto> transcript) | Inl _ \<Rightarrow> cache)"




text \<open>The writes to the per-video state that record a success or an error.\<close>

fun is_outcome :: "action \<Rightarrow> bool" where
  "is_outcome (SetTranscriptState _ st _) = (st = Success \<or> st = Error)"
| "is_outcome _ = False"

definition outcomes :: "action list \<Rightarrow> action list" where
  "outcomes acts = filter is_outcome acts"




definition new_actions :: "App \<Rightarrow> App \<Rightarrow> action list" where
  "new_actions s s' = drop (length (actions s)) (actions s')"

text \<open>
  The key, the audio link and the outcome of the item at index \<open>i\<close> of a run over the
  list \<open>vs\<close>.
\<close>

definition item_url :: "js \<Rightarrow> SocialVideo list \<Rightarrow> nat \<Rightarrow> string" where
  "item_url rt vs i = url_of rt (vs ! i)"

definition item_mp3 :: "js \<Rightarrow> (string \<rightharpoonup> string) \<Rightarrow> SocialVideo list \<Rightarrow> nat \<Rightarrow> string" where
  "item_mp3 rt links vs i = mp3_of links (url_of rt (vs ! i))"

definition item_attempt ::
    "js \<Rightarrow> run_env \<Rightarrow> string \<Rightarrow> (string \<rightharpoonup> string) \<Rightarrow> SocialVideo list \<Rightarrow> nat \<Rightarrow> thrown + string" where
  "item_attempt rt env apiKey links vs i =
     attempt (net env i) apiKey (mp3_of links (url_of rt (vs ! i)))"



text \<open>The write to the per-video state that records the outcome \<open>r\<close> under the key \<open>url\<close>.\<close>

definition outcome_write :: "string \<Rightarrow> thrown + string \<Rightarrow> action" where
  "outcome_write url r =
     SetTranscriptState url (TranscriptEntry.status (outcome_entry r))
       (TranscriptEntry.text (outcome_entry r))"

section \<open>services/apifyService.ts\<close>

subsection \<open>Messages\<close>

definition msg_token_required :: "string" where
  "msg_token_required =
     ''Apify API Token is required.''"

definition msg_tiktok_url_required :: "string" where
  "msg_tiktok_url_required =
     ''TikTok Channel URL is required.''"

definition msg_facebook_url_required :: "string" where
  "msg_facebook_url_required =
     ''Facebook Page/Profile URL is required.''"

definition msg_apify_error :: "string \<Rightarrow> string" where
  "msg_apify_error detail =
     ''Apify API Error: '' @ detail"

definition msg_apify_empty :: "string" where
  "msg_apify_empty =
     ''Apify kh'' @ [CHR 0xC3, CHR 0xB4] @ ''ng t'' @ [CHR 0xC3, CHR 0xAC] @ ''m th'' @
     [CHR 0xE1, CHR 0xBA, CHR 0xA5] @ ''y video n'' @ [CHR 0xC3, CHR 0xA0] @ ''o ho'' @
     [CHR 0xE1, CHR 0xBA, CHR 0xB7] @ ''c tr'' @ [CHR 0xE1, CHR 0xBA, CHR 0xA3] @ '' v'' @
     [CHR 0xE1, CHR 0xBB, CHR 0x81] @ '' '' @ [CHR 0xC4, CHR 0x91, CHR 0xE1, CHR 0xBB, CHR 0x8B] @
     ''nh d'' @ [CHR 0xE1, CHR 0xBA, CHR 0xA1] @ ''ng d'' @ [CHR 0xE1, CHR 0xBB, CHR 0xAF] @
     '' li'' @ [CHR 0xE1, CHR 0xBB, CHR 0x87] @ ''u kh'' @ [CHR 0xC3, CHR 0xB4] @ ''ng mong mu'' @
     [CHR 0xE1, CHR 0xBB, CHR 0x91] @ ''n.''"

definition msg_facebook_no_posts :: "string" where
  "msg_facebook_no_posts =
     ''Apify scraper ran successfully, but no video posts were found in the results. '' @
     ''The URL might not contain recent videos or they may not be publicly accessible.''"


subsection \<open>The mappers\<close>

text \<open>
  \<^verbatim>\<open>item.id\<close> throws a \<^verbatim>\<open>TypeError\<close> when the item is null; every other expression of the
  TikTok mapper is total. \<open>rnd\<close> is the rendering of this call's \<^verbatim>\<open>Math.random()\<close>, and
  \<^verbatim>\<open>new Date(0).toISOString()\<close> is the text of the epoch.
\<close>

definition mapTikTokItemToSocialVideo :: "js \<Rightarrow> string \<Rightarrow> jsval \<Rightarrow> thrown + SocialVideo" where
  "mapTikTokItemToSocialVideo rt rnd item =
     (if nullish item then Inl (TypeError_of_null rt)
      else Inr
        \<lparr>id_v = coalesce (get_prop item ''id'')
                 (coalesce (get_prop item ''webVideoUrl'') (JStr (''fallback-'' @ rnd))),
         webVideoUrl = coalesce (get_prop item ''webVideoUrl'') (JStr []),
         SocialVideo.text = coalesce (get_prop item ''text'') (JStr []),
         createTime = coalesce (get_prop item ''createTime'') (JNum 0),
         createTimeISO = coalesce (get_prop item ''createTimeISO'') (JStr ''1970-01-01T00:00:00.000Z''),
         authorMeta =
           \<lparr>name = coalesce (get_prop (get_prop item ''authorMeta'') ''name'') (JStr ''Unknown''),
            nickName = coalesce (get_prop (get_prop item ''authorMeta'') ''nickName'')
                         (coalesce (get_prop (get_prop item ''authorMeta'') ''name'') (JStr ''Unknown'')),
            avatar = coalesce (get_prop (get_prop item ''authorMeta'') ''avatar'') (JStr [])\<rparr>,
         diggCount = coalesce (get_prop item ''diggCount'') (JNum 0),
         commentCount = coalesce (get_prop item ''commentCount'') (JNum 0),
         shareCount = coalesce (get_prop item ''shareCount'') (JNum 0),
         playCount = coalesce (get_prop item ''playCount'') (JNum 0),
         videoMeta =
           \<lparr>duration = coalesce (get_prop (get_prop item ''videoMeta'') ''duration'') (JNum 0),
            height = coalesce (get_prop (get_prop item ''videoMeta'') ''height'') (JNum 0),
            width = coalesce (get_prop (get_prop item ''videoMeta'') ''width'') (JNum 0)\<rparr>,
         musicMeta =
           \<lparr>musicName = coalesce (get_prop (get_prop item ''musicMeta'') ''musicName'') (JStr ''N/A''),
            musicAuthor = coalesce (get_prop (get_prop item ''musicMeta'') ''musicAuthor'') (JStr ''N/A''),
            musicOriginal =
              coalesce (get_prop (get_prop item ''musicMeta'') ''musicOriginal'') (JBool False)\<rparr>\<rparr>)"

text \<open>
  \<open>now\<close> is this call's \<^verbatim>\<open>Date.now()\<close>. The only expression of the Facebook mapper that can
  throw, for an item that is not null, is \<^verbatim>\<open>toISOString\<close>.
\<close>

definition mapFacebookItemToSocialVideo :: "js \<Rightarrow> rat \<Rightarrow> jsval \<Rightarrow> thrown + SocialVideo" where
  "mapFacebookItemToSocialVideo rt now item =
     (if nullish item then Inl (TypeError_of_null rt)
      else
        (let createTime_l =
               (if truthy (get_prop item ''creation_time'')
                then times_js rt (get_prop item ''creation_time'') 1000
                else JNum now);
             postUrl =
               or_js (or_js (get_prop item ''shareable_url'')
                        (get_prop item ''playback_video/permalink_url''))
                 (JStr [])
         in case toISOString rt createTime_l of
              Inl error \<Rightarrow> Inl error
            | Inr isoText \<Rightarrow>
                Inr
                  \<lparr>id_v = coalesce (get_prop item ''video_id'')
                           (coalesce (get_prop item ''post_id'') postUrl),
                   webVideoUrl = postUrl,
                   SocialVideo.text = coalesce (get_prop item ''message'') (JStr []),
                   createTime = createTime_l,
                   createTimeISO = JStr isoText,
                   authorMeta =
                     \<lparr>name = coalesce (get_prop item ''video_owner/name'') (JStr ''Unknown''),
                      nickName = coalesce (get_prop item ''video_owner/name'') (JStr ''Unknown''),
                      avatar = coalesce (get_prop item ''video_owner/profile_pic_url'') (JStr [])\<rparr>,
                   diggCount = coalesce (get_prop item ''reactions_count'') (JNum 0),
                   commentCount = coalesce (get_prop item ''comments_count'') (JNum 0),
                   shareCount = coalesce (get_prop item ''shares_count'') (JNum 0),
                   playCount = coalesce (get_prop item ''views_count'') (JNum 0),
                   videoMeta =
                     \<lparr>duration =
                        (if truthy (get_prop item ''playable_duration_in_ms'')
                         then divide_js rt (get_prop item ''playable_duration_in_ms'') 1000
                         else JNum 0),
                      height = coalesce (get_prop item ''playback_video/height'') (JNum 0),
                      width = coalesce (get_prop item ''playback_video/width'') (JNum 0)\<rparr>,
                   musicMeta =
                     \<lparr>musicName = coalesce (get_prop item ''track_title'') (JStr ''N/A''),
                      musicAuthor = coalesce (get_prop item ''video_owner/name'') (JStr ''N/A''),
                      musicOriginal =
                        coalesce (get_prop item ''is_original_audio_on_facebook'') (JBool False)\<rparr>\<rparr>))"

subsection \<open>The requests\<close>

text \<open>
  What a request to a backend does: \<^verbatim>\<open>fetch\<close> rejects, or there is a response with
  its \<^verbatim>\<open>ok\<close> flag, its status text and what \<^verbatim>\<open>response.json()\<close> produces.
\<close>

datatype http_response = HttpFails thrown | HttpResponse bool string "thrown + jsval"

text \<open>
  What surrounds one scan: the answers of the two scrapers (to the token, the profile
  or page and the limit) and of the identifier lookup, and the values of
  \<^verbatim>\<open>Math.random()\<close> and \<^verbatim>\<open>Date.now()\<close> at the item of each index.
\<close>

record scan_env =
  apify_tiktok :: "string \<Rightarrow> string \<Rightarrow> int \<Rightarrow> http_response"
  apify_facebook :: "string \<Rightarrow> string \<Rightarrow> int \<Rightarrow> http_response"
  finduid :: "string \<Rightarrow> http_response"
  math_random :: "nat \<Rightarrow> string"
  date_now :: "nat \<Rightarrow> rat"

text \<open>\<^verbatim>\<open>items.map(f)\<close> for a mapper that can throw: the first throw ends the mapping.\<close>

fun map_throw :: "(nat \<Rightarrow> 'a \<Rightarrow> thrown + 'b) \<Rightarrow> nat \<Rightarrow> 'a list \<Rightarrow> thrown + 'b list" where
  "map_throw f i [] = Inr []"
| "map_throw f i (x # xs) =
     (case f i x of
        Inl error \<Rightarrow> Inl error
      | Inr y \<Rightarrow> (case map_throw f (i + 1) xs of Inl error \<Rightarrow> Inl error | Inr ys \<Rightarrow> Inr (y # ys)))"

text \<open>The handle that is sent to the TikTok scraper.\<close>

definition profile_name :: "js \<Rightarrow> string \<Rightarrow> string" where
  "profile_name rt tiktokUrl =
     (case URL_pathname rt tiktokUrl of
        Some pathname \<Rightarrow>
          (case filter (\<lambda>part. part \<noteq> [] \<and> startsWith part ''@'') (split_js (CHR ''/'') pathname) of
             [] \<Rightarrow> trim rt tiktokUrl
           | part # _ \<Rightarrow> drop 1 part)
      | None \<Rightarrow>
          (if startsWith (trim rt tiktokUrl) ''@'' then drop 1 (trim rt tiktokUrl)
           else trim rt tiktokUrl))"

text \<open>The part of both fetchers that reads a response that is not \<^verbatim>\<open>ok\<close>.\<close>

definition apify_failure :: "js \<Rightarrow> string \<Rightarrow> thrown + jsval \<Rightarrow> thrown" where
  "apify_failure rt statusText body =
     (case body of
        Inl error \<Rightarrow> error
      | Inr errorData \<Rightarrow>
          (if nullish errorData then TypeError_of_null rt
           else ErrorObj (msg_apify_error
                  (to_str rt (or_js (get_prop (get_prop errorData ''error'') ''message'')
                                (JStr statusText))))))"

definition fetchTikTokData ::
    "js \<Rightarrow> scan_env \<Rightarrow> string \<Rightarrow> string \<Rightarrow> int \<Rightarrow> action list \<times> (thrown + SocialVideo list)" where
  "fetchTikTokData rt senv token tiktokUrl limit =
     (if token = [] then ([], Inl (ErrorObj msg_token_required))
      else if tiktokUrl = [] then ([], Inl (ErrorObj msg_tiktok_url_required))
      else
        ([ApifyTikTok token (profile_name rt tiktokUrl) limit],
         (case apify_tiktok senv token (profile_name rt tiktokUrl) limit of
            HttpFails error \<Rightarrow> Inl error
          | HttpResponse ok statusText body \<Rightarrow>
              (if \<not> ok then Inl (apify_failure rt statusText body)
               else
                 (case body of
                    Inl error \<Rightarrow> Inl error
                  | Inr (JArr rawData) \<Rightarrow>
                      (if rawData = [] then Inl (ErrorObj msg_apify_empty)
                       else map_throw (\<lambda>i. mapTikTokItemToSocialVideo rt (math_random senv i)) 0 rawData)
                  | Inr _ \<Rightarrow> Inl (ErrorObj msg_apify_empty))))))"

text \<open>
  Every failure inside \<^verbatim>\<open>convertFacebookUidToUrl\<close> is caught and gives the URL back.
\<close>

definition convertFacebookUidToUrl :: "js \<Rightarrow> scan_env \<Rightarrow> string \<Rightarrow> action list \<times> string" where
  "convertFacebookUidToUrl rt senv url =
     (case URL_pathname rt url of
        None \<Rightarrow> ([], url)
      | Some pathname \<Rightarrow>
          (case (if includes_js pathname ''profile.php'' then URL_search_id rt url else None) of
             None \<Rightarrow> ([], url)
           | Some uid \<Rightarrow>
               (if uid = [] then ([], url)
                else
                  ([FindUid uid],
                   (case finduid senv uid of
                      HttpFails _ \<Rightarrow> url
                    | HttpResponse ok _ body \<Rightarrow>
                        (if \<not> ok then url
                         else
                           (case body of
                              Inl _ \<Rightarrow> url
                            | Inr data \<Rightarrow>
                                (case get_prop data ''username'' of
                                   JStr username \<Rightarrow>
                                     (if truthy data \<and> trim rt username \<noteq> []
                                      then ''https://www.facebook.com/'' @ trim rt username
                                      else url)
                                 | _ \<Rightarrow> url))))))))"

definition isFacebookVideoPost :: "jsval \<Rightarrow> bool" where
  "isFacebookVideoPost item \<longleftrightarrow>
     truthy item
     \<and> (truthy (get_prop item ''video_id'') \<or> truthy (get_prop item ''post_id''))
     \<and> (truthy (get_prop item ''shareable_url'')
        \<or> truthy (get_prop item ''playback_video/permalink_url''))"

definition fetchFacebookData ::
    "js \<Rightarrow> scan_env \<Rightarrow> string \<Rightarrow> string \<Rightarrow> int \<Rightarrow> action list \<times> (thrown + SocialVideo list)" where
  "fetchFacebookData rt senv token facebookUrl limit =
     (if token = [] then ([], Inl (ErrorObj msg_token_required))
      else if facebookUrl = [] then ([], Inl (ErrorObj msg_facebook_url_required))
      else
        (let converted = convertFacebookUidToUrl rt senv facebookUrl;
             profileUrl = trim rt (snd converted)
         in (fst converted @ [ApifyFacebook token profileUrl limit],
             (case apify_facebook senv token profileUrl limit of
                HttpFails error \<Rightarrow> Inl error
              | HttpResponse ok statusText body \<Rightarrow>
                  (if \<not> ok then Inl (apify_failure rt statusText body)
                   else
                     (case body of
                        Inl error \<Rightarrow> Inl error
                      | Inr (JArr rawData) \<Rightarrow>
                          (if rawData = [] then Inl (ErrorObj msg_apify_empty)
                           else
                             (case map_throw (\<lambda>i. mapFacebookItemToSocialVideo rt (date_now senv i)) 0
                                     (filter isFacebookVideoPost rawData) of
                                Inl error \<Rightarrow> Inl error
                              | Inr mappedData \<Rightarrow>
                                  (if mappedData = [] then Inl (ErrorObj msg_facebook_no_posts)
                                   else Inr mappedData)))
                      | Inr _ \<Rightarrow> Inl (ErrorObj msg_apify_empty)))))))"

section \<open>The controller: handleScan\<close>

definition msg_ready :: "string" where
  "msg_ready =
     ''S'' @ [CHR 0xE1, CHR 0xBA, CHR 0xB5] @ ''n s'' @ [CHR 0xC3, CHR 0xA0] @ ''ng.''"

definition msg_scanning :: "string" where
  "msg_scanning =
     ''B'' @ [CHR 0xC6, CHR 0xB0, CHR 0xE1, CHR 0xBB, CHR 0x9B] @ ''c 1: '' @
     [CHR 0xC4, CHR 0x90] @ ''ang qu'' @ [CHR 0xC3, CHR 0xA9] @ ''t k'' @ [CHR 0xC3, CHR 0xAA] @
     ''nh...''"

definition msg_scanning_tiktok :: "string" where
  "msg_scanning_tiktok =
     ''B'' @ [CHR 0xC6, CHR 0xB0, CHR 0xE1, CHR 0xBB, CHR 0x9B] @ ''c 1: '' @
     [CHR 0xC4, CHR 0x90] @ ''ang qu'' @ [CHR 0xC3, CHR 0xA9] @ ''t k'' @ [CHR 0xC3, CHR 0xAA] @
     ''nh TikTok v'' @ [CHR 0xE1, CHR 0xBB, CHR 0x9B] @ ''i Apify...''"

definition msg_scanning_facebook :: "string" where
  "msg_scanning_facebook =
     ''B'' @ [CHR 0xC6, CHR 0xB0, CHR 0xE1, CHR 0xBB, CHR 0x9B] @ ''c 1: '' @
     [CHR 0xC4, CHR 0x90] @ ''ang qu'' @ [CHR 0xC3, CHR 0xA9] @ ''t k'' @ [CHR 0xC3, CHR 0xAA] @
     ''nh Facebook v'' @ [CHR 0xE1, CHR 0xBB, CHR 0x9B] @ ''i Apify...''"

definition msg_unsupported_url :: "string" where
  "msg_unsupported_url =
     ''URL kh'' @ [CHR 0xC3, CHR 0xB4] @ ''ng '' @
     [CHR 0xC4, CHR 0x91, CHR 0xC6, CHR 0xB0, CHR 0xE1, CHR 0xBB, CHR 0xA3] @ ''c h'' @
     [CHR 0xE1, CHR 0xBB, CHR 0x97] @ '' tr'' @ [CHR 0xE1, CHR 0xBB, CHR 0xA3] @ ''. Vui l'' @
     [CHR 0xC3, CHR 0xB2] @ ''ng nh'' @ [CHR 0xE1, CHR 0xBA, CHR 0xAD] @ ''p URL c'' @
     [CHR 0xE1, CHR 0xBB, CHR 0xA7] @ ''a k'' @ [CHR 0xC3, CHR 0xAA] @ ''nh TikTok ho'' @
     [CHR 0xE1, CHR 0xBA, CHR 0xB7] @ ''c Facebook.''"

definition msg_scan_ok :: "nat \<Rightarrow> string" where
  "msg_scan_ok n =
     ''Qu'' @ [CHR 0xC3, CHR 0xA9] @ ''t th'' @ [CHR 0xC3, CHR 0xA0] @ ''nh c'' @
     [CHR 0xC3, CHR 0xB4] @ ''ng! T'' @ [CHR 0xC3, CHR 0xAC] @ ''m th'' @
     [CHR 0xE1, CHR 0xBA, CHR 0xA5] @ ''y '' @ show_nat n @ '' video. Chuy'' @
     [CHR 0xE1, CHR 0xBB, CHR 0x83] @ ''n sang b'' @
     [CHR 0xC6, CHR 0xB0, CHR 0xE1, CHR 0xBB, CHR 0x9B] @ ''c gh'' @ [CHR 0xC3, CHR 0xA9] @
     ''p n'' @ [CHR 0xE1, CHR 0xBB, CHR 0x91] @ ''i '' @ [CHR 0xC3, CHR 0xA2] @ ''m thanh.''"

definition msg_scan_error :: "string \<Rightarrow> string" where
  "msg_scan_error errorMessage =
     ''L'' @ [CHR 0xE1, CHR 0xBB, CHR 0x97] @ ''i qu'' @ [CHR 0xC3, CHR 0xA9] @ ''t: '' @
     errorMessage"


text \<open>\<^verbatim>\<open>error instanceof Error ? error.message : String(error)\<close>\<close>

definition scan_message :: "thrown \<Rightarrow> string" where
  "scan_message error = (case error of ErrorObj m \<Rightarrow> m | NonError rendering \<Rightarrow> rendering)"

text \<open>
  The \<^verbatim>\<open>try\<close> block up to the end of the awaited call: the state with the status of the
  branch taken and the requests made, and what the call returned or threw.
\<close>

definition scan_fetch :: "js \<Rightarrow> scan_env \<Rightarrow> App \<Rightarrow> App \<times> (thrown + SocialVideo list)" where
  "scan_fetch rt senv s =
     (let trimmedUrl = toLowerCase rt (trim rt (channelUrl s))
      in if includes_js trimmedUrl ''tiktok.com'' then
           (let answer = fetchTikTokData rt senv (apifyToken s) (channelUrl s) (resultsLimit s)
            in (perform (fst answer) (setStatus msg_scanning_tiktok s), snd answer))
         else if includes_js trimmedUrl ''facebook.com'' \<or> includes_js trimmedUrl ''fb.com'' then
           (let answer = fetchFacebookData rt senv (apifyToken s) (channelUrl s) (resultsLimit s)
            in (perform (fst answer) (setStatus msg_scanning_facebook s), snd answer))
         else (s, Inl (ErrorObj msg_unsupported_url)))"

definition handleScan :: "js \<Rightarrow> scan_env \<Rightarrow> App \<Rightarrow> App" where
  "handleScan rt senv s =
     (let s1 = (setStatus msg_scanning (s\<lparr>isProcessing := True\<rparr>))\<lparr>videos := []\<rparr>;
          fetched = scan_fetch rt senv s1;
          s2 = (case snd fetched of
                  Inr fetchedVideos \<Rightarrow>
                    (setStatus (msg_scan_ok (length fetchedVideos))
                       ((fst fetched)\<lparr>videos := fetchedVideos\<rparr>))\<lparr>step := Match\<rparr>
                | Inl error \<Rightarrow> setStatus (msg_scan_error (scan_message error)) (fst fetched))
      in s2\<lparr>isProcessing := False\<rparr>)"

section \<open>The handle as the specification words it\<close>

text \<open>
  The specification describes the handle as the last path segment that begins with
  \<open>@\<close>, without the \<open>@\<close>, and otherwise as the trimmed input without a leading \<open>@\<close>. This
  definition follows those words; \<open>profile_name\<close> above follows the source.
\<close>

definition handle_as_specified :: "js \<Rightarrow> string \<Rightarrow> string" where
  "handle_as_specified rt tiktokUrl =
     (case filter (\<lambda>part. startsWith part ''@'')
             (case URL_pathname rt tiktokUrl of
                Some pathname \<Rightarrow> split_js (CHR ''/'') pathname
              | None \<Rightarrow> []) of
        [] \<Rightarrow>
          (if startsWith (trim rt tiktokUrl) ''@'' then drop 1 (trim rt tiktokUrl)
           else trim rt tiktokUrl)
      | parts \<Rightarrow> drop 1 (last parts))"

section \<open>Every field of a record is defined\<close>

definition defined :: "jsval \<Rightarrow> bool" where
  "defined v \<longleftrightarrow> v \<noteq> JUndefined \<and> v \<noteq> JNull"

definition all_defined :: "SocialVideo \<Rightarrow> bool" where
  "all_defined v \<longleftrightarrow>
     defined (id_v v) \<and> defined (webVideoUrl v) \<and> defined (SocialVideo.text v)
     \<and> defined (createTime v) \<and> defined (createTimeISO v)
     \<and> defined (name (authorMeta v)) \<and> defined (nickName (authorMeta v))
     \<and> defined (avatar (authorMeta v))
     \<and> defined (diggCount v) \<and> defined (commentCount v) \<and> defined (shareCount v)
     \<and> defined (playCount v)
     \<and> defined (duration (videoMeta v)) \<and> defined (height (videoMeta v))
     \<and> defined (width (videoMeta v))
     \<and> defined (musicName (musicMeta v)) \<and> defined (musicAuthor (musicMeta v))
     \<and> defined (musicOriginal (musicMeta v))"

section \<open>Concrete inputs\<close>

text \<open>
  A runtime for the examples. On the ASCII inputs of the examples it agrees with the
  JavaScript runtime: \<^verbatim>\<open>new URL("https://www.tiktok.com/@alice/video/@bob").pathname\<close> is
  \<^verbatim>\<open>/@alice/video/@bob\<close>, a text without a scheme is not a URL, and
  \<^verbatim>\<open>new Date(1700000000000).toISOString()\<close> is \<^verbatim>\<open>2023-11-14T22:13:20.000Z\<close>.
\<close>

definition ascii_space :: "char \<Rightarrow> bool" where
  "ascii_space c \<longleftrightarrow> c \<in> set [CHR '' '', CHR 0x09, CHR 0x0A, CHR 0x0B, CHR 0x0C, CHR 0x0D]"

definition ascii_trim :: "string \<Rightarrow> string" where
  "ascii_trim s = rev (dropWhile ascii_space (rev (dropWhile ascii_space s)))"

definition ascii_lower :: "char \<Rightarrow> char" where
  "ascii_lower c =
     (case map_of (zip ''ABCDEFGHIJKLMNOPQRSTUVWXYZ'' ''abcdefghijklmnopqrstuvwxyz'') c of
        Some l \<Rightarrow> l
      | None \<Rightarrow> c)"

definition example_rt :: js where
  "example_rt =
     \<lparr>trim = ascii_trim,
      toLowerCase = map ascii_lower,
      URL_pathname = (\<lambda>u. if startsWith u ''https://www.tiktok.com/'' then Some (drop 22 u) else None),
      URL_search_id = (\<lambda>u. None),
      String_other = (\<lambda>v. ''[object Object]''),
      Number_other = (\<lambda>v. None),
      toISOString =
        (\<lambda>v. if v = JNum 1700000000000 then Inr ''2023-11-14T22:13:20.000Z''
             else if v = JNum 0 then Inr ''1970-01-01T00:00:00.000Z''
             else Inl (ErrorObj ''Invalid time value'')),
      TypeError_of_null = ErrorObj ''Cannot read properties of null''\<rparr>"

definition example_video :: "string \<Rightarrow> string \<Rightarrow> SocialVideo" where
  "example_video ident url =
     \<lparr>id_v = JStr ident,
      webVideoUrl = JStr url,
      SocialVideo.text = JStr [],
      createTime = JNum 0,
      createTimeISO = JStr ''1970-01-01T00:00:00.000Z'',
      authorMeta = \<lparr>name = JStr ''Unknown'', nickName = JStr ''Unknown'', avatar = JStr []\<rparr>,
      diggCount = JNum 0,
      commentCount = JNum 0,
      shareCount = JNum 0,
      playCount = JNum 0,
      videoMeta = \<lparr>duration = JNum 0, height = JNum 0, width = JNum 0\<rparr>,
      musicMeta = \<lparr>musicName = JStr ''N/A'', musicAuthor = JStr ''N/A'', musicOriginal = JBool False\<rparr>\<rparr>"

text \<open>Two scanned videos \<open>A\<close> and \<open>B\<close>, both with an audio link, and an empty cache.\<close>

definition example_app :: App where
  "example_app =
     \<lparr>step = Match,
      googleApiKey = ''key'',
      apifyToken = ''token'',
      channelUrl = ''https://example.org/channel'',
      resultsLimit = 20,
      isProcessing = False,
      status = msg_ready,
      videos = [example_video ''1'' ''A'', example_video ''2'' ''B''],
      mp3Links = [''A'' \<mapsto> ''https://audio.example/a.mp3'', ''B'' \<mapsto> ''https://audio.example/b.mp3''],
      transcriptStates = Map.empty,
      transcriptCache = Map.empty,
      retryingIds = {},
      stopRequest = False,
      actions = []\<rparr>"

definition xin_chao :: "string" where
  "xin_chao =
     ''xin ch'' @ [CHR 0xC3, CHR 0xA0] @ ''o''"

text \<open>A network on which the download and the transcription succeed, and one that is down.\<close>

definition network_ok :: "string \<Rightarrow> network" where
  "network_ok transcript =
     \<lparr>fetch_audio = (\<lambda>url. AudioResponse True ''audio/mpeg'' (ReaderLoaded ''data:audio/mpeg;base64,QUJD'')),
      generateContent = (\<lambda>apiKey mimeType base64. GenResolves (Some transcript))\<rparr>"

definition network_down :: network where
  "network_down =
     \<lparr>fetch_audio = (\<lambda>url. FetchThrows),
      generateContent = (\<lambda>apiKey mimeType base64. GenRejects (ErrorObj ''Failed to fetch''))\<rparr>"

text \<open>The run of the scenario: \<open>A\<close> is transcribed, the download of \<open>B\<close> fails, nobody stops.\<close>

definition example_env :: run_env where
  "example_env =
     \<lparr>net = (\<lambda>i. if i = 0 then network_ok xin_chao else network_down),
      stop_during_item = (\<lambda>i. False),
      stop_during_delay = (\<lambda>i. False)\<rparr>"

text \<open>The same run with the stop button pressed while \<open>A\<close> is in flight.\<close>

definition example_env_stopped :: run_env where
  "example_env_stopped = example_env\<lparr>stop_during_item := (\<lambda>i. i = 0)\<rparr>"

text \<open>The state before a scan of a channel that is neither on TikTok nor on Facebook.\<close>

definition example_scan_app :: App where
  "example_scan_app = example_app\<lparr>step := Scan, videos := []\<rparr>"

text \<open>Scrapers that are never reached in the examples.\<close>

definition example_scan_env :: scan_env where
  "example_scan_env =
     \<lparr>apify_tiktok = (\<lambda>token profile limit. HttpFails (ErrorObj ''Failed to fetch'')),
      apify_facebook = (\<lambda>token page limit. HttpFails (ErrorObj ''Failed to fetch'')),
      finduid = (\<lambda>uid. HttpFails (ErrorObj ''Failed to fetch'')),
      math_random = (\<lambda>i. ''0.5''),
      date_now = (\<lambda>i. 1700000000000)\<rparr>"


text \<open>The same videos with both transcripts already in the cache.\<close>

definition example_cached_app :: App where
  "example_cached_app = example_app\<lparr>transcriptCache := [''A'' \<mapsto> xin_chao, ''B'' \<mapsto> ''hello'']\<rparr>"

text \<open>The state after the scenario: \<open>A\<close> is cached, \<open>B\<close> is in error.\<close>

definition example_error_app :: App where
  "example_error_app =
     example_app
       \<lparr>step := Results,
        transcriptStates :=
          [''A'' \<mapsto> \<lparr>TranscriptEntry.status = Success, TranscriptEntry.text = xin_chao\<rparr>,
           ''B'' \<mapsto> \<lparr>TranscriptEntry.status = Error,
                    TranscriptEntry.text = msg_error msg_download_failed\<rparr>],
        transcriptCache := [''A'' \<mapsto> xin_chao]\<rparr>"

text \<open>The same state after the operator has cleared the audio link of \<open>B\<close>.\<close>

definition example_unlinked_app :: App where
  "example_unlinked_app =
     example_error_app\<lparr>mp3Links := [''A'' \<mapsto> ''https://audio.example/a.mp3'', ''B'' \<mapsto> []]\<rparr>"

text \<open>
  A Facebook post that passes the filter of the fetcher and has no creation time, and the
  record that the mapper makes of it at the time \<open>1700000000000\<close>.
\<close>

definition example_facebook_item :: jsval where
  "example_facebook_item =
     JObj [(''video_id'', JStr ''1''), (''shareable_url'', JStr ''https://www.facebook.com/watch?v=1'')]"

definition example_facebook_video :: SocialVideo where
  "example_facebook_video =
     (example_video ''1'' ''https://www.facebook.com/watch?v=1'')
       \<lparr>createTime := JNum 1700000000000, createTimeISO := JStr ''2023-11-14T22:13:20.000Z''\<rparr>"

text \<open>A URL whose path has two segments that begin with \<open>@\<close>.\<close>

definition example_tiktok_url :: string where
  "example_tiktok_url = ''https://www.tiktok.com/@alice/video/@bob''"

section \<open>Properties\<close>

lemmas setters = perform_def setStatus_def setTranscriptState_def setTranscriptCache_def
  handleStopProcessing_def

lemma new_actions_append: "actions s' = actions s @ new \<Longrightarrow> new_actions s s' = new"
  by (simp add: new_actions_def)


subsection \<open>One item of the loop\<close>

lemma loop_item_count:
  "fst (loop_item rt nw apiKey links vs i cs) =
     fst cs + (if succeeded (attempt nw apiKey (mp3_of links (url_of rt (vs ! i)))) then 1 else 0)"
  by (simp add: loop_item_def attempt_def succeeded_def Let_def split: sum.splits prod.splits)

lemma loop_item_cache:
  "transcriptCache (snd (loop_item rt nw apiKey links vs i cs)) =
     cache_after (attempt nw apiKey (mp3_of links (url_of rt (vs ! i)))) (url_of rt (vs ! i))
       (transcriptCache (snd cs))"
  by (simp add: loop_item_def attempt_def cache_after_def setters Let_def
      split: sum.splits prod.splits)

lemma loop_item_states:
  "transcriptStates (snd (loop_item rt nw apiKey links vs i cs)) =
     (transcriptStates (snd cs))(url_of rt (vs ! i) \<mapsto>
        outcome_entry (attempt nw apiKey (mp3_of links (url_of rt (vs ! i)))))"
  by (simp add: loop_item_def attempt_def outcome_entry_def setters Let_def
      split: sum.splits prod.splits)

lemma loop_item_stop:
  "stopRequest (snd (loop_item rt nw apiKey links vs i cs)) = stopRequest (snd cs)"
  by (simp add: loop_item_def setters Let_def split: sum.splits prod.splits)


lemma loop_item_outcomes:
  "outcomes (actions (snd (loop_item rt nw apiKey links vs i cs))) =
     outcomes (actions (snd cs)) @
       [outcome_write (url_of rt (vs ! i)) (attempt nw apiKey (mp3_of links (url_of rt (vs ! i))))]"
  by (simp add: loop_item_def outcomes_def outcome_write_def attempt_def outcome_entry_def setters Let_def
      getBase64FromUrl_def transcribeAudioWithGemini_def split: sum.splits prod.splits)

subsection \<open>One pass through the body\<close>

lemma loop_body_count:
  "fst (loop_body rt env apiKey links vs i cs) =
     fst cs + (if succeeded (item_attempt rt env apiKey links vs i) then 1 else 0)"
  by (simp add: loop_body_def Let_def loop_item_count item_attempt_def)

lemma loop_body_cache:
  "transcriptCache (snd (loop_body rt env apiKey links vs i cs)) =
     cache_after (item_attempt rt env apiKey links vs i) (item_url rt vs i) (transcriptCache (snd cs))"
  by (simp add: loop_body_def Let_def loop_delay_def setters loop_item_cache item_attempt_def
      item_url_def)

lemma loop_body_states:
  "transcriptStates (snd (loop_body rt env apiKey links vs i cs)) =
     (transcriptStates (snd cs))(item_url rt vs i \<mapsto>
        outcome_entry (item_attempt rt env apiKey links vs i))"
  by (simp add: loop_body_def Let_def loop_delay_def setters loop_item_states item_attempt_def
      item_url_def)

lemma loop_body_stop:
  "\<not> stopRequest (snd cs) \<Longrightarrow>
   stopRequest (snd (loop_body rt env apiKey links vs i cs)) =
     (stop_during_item env i \<or> (i < length vs - 1 \<and> stop_during_delay env i))"
  by (simp add: loop_body_def Let_def loop_delay_def setters loop_item_stop)


lemma loop_body_outcomes:
  "outcomes (actions (snd (loop_body rt env apiKey links vs i cs))) =
     outcomes (actions (snd cs)) @
       [outcome_write (item_url rt vs i) (item_attempt rt env apiKey links vs i)]"
  using loop_item_outcomes [of rt "net env i" apiKey links vs i cs]
  by (simp add: loop_body_def Let_def loop_delay_def setters outcomes_def item_attempt_def
      item_url_def outcome_write_def)

lemma loop_item_extends:
  "\<exists>new. actions (snd (loop_item rt nw apiKey links vs i cs)) = actions (snd cs) @ new"
  by (simp add: loop_item_def setters Let_def split: sum.splits prod.splits)

lemma loop_body_extends:
  "\<exists>new. actions (snd (loop_body rt env apiKey links vs i cs)) = actions (snd cs) @ new"
  using loop_item_extends [of rt "net env i" apiKey links vs i cs]
  by (auto simp: loop_body_def Let_def loop_delay_def setters)

lemma loop_body_other:
  "isProcessing (snd (loop_body rt env apiKey links vs i cs)) = isProcessing (snd cs)"
  by (simp add: loop_body_def Let_def loop_delay_def setters loop_item_def
      split: sum.splits prod.splits)

subsection \<open>Unfolding the loop\<close>

lemma loop_done:
  "\<not> i < length vs \<Longrightarrow> transcribe_loop rt env apiKey links vs i cs = cs"
  by (subst transcribe_loop.simps) simp

lemma loop_stopped:
  "i < length vs \<Longrightarrow> stopRequest (snd cs) \<Longrightarrow>
   transcribe_loop rt env apiKey links vs i cs = (fst cs, setStatus (msg_stopped (fst cs)) (snd cs))"
  by (subst transcribe_loop.simps) simp

lemma loop_step:
  "i < length vs \<Longrightarrow> \<not> stopRequest (snd cs) \<Longrightarrow>
   transcribe_loop rt env apiKey links vs i cs =
     transcribe_loop rt env apiKey links vs (i + 1) (loop_body rt env apiKey links vs i cs)"
  by (subst transcribe_loop.simps) simp

text \<open>The state after the bodies for the indices from i up to m.\<close>

lemma bodies_flag_clear:
  "\<not> stopRequest (snd cs) \<Longrightarrow>
   (\<forall>j. i \<le> j \<and> j < m \<longrightarrow> \<not> stop_during_item env j \<and> \<not> (j < length vs - 1 \<and> stop_during_delay env j)) \<Longrightarrow>
   \<not> stopRequest (snd (foldl (\<lambda>cs j. loop_body rt env apiKey links vs j cs) cs [i..<m]))"
proof (induction m)
  case 0
  then show ?case by simp
next
  case (Suc m)
  show ?case
  proof (cases "i \<le> m")
    case True
    have clear: "\<not> stopRequest (snd (foldl (\<lambda>cs j. loop_body rt env apiKey links vs j cs) cs [i..<m]))"
      using Suc by simp
    show ?thesis
      using True Suc.prems(2) by (simp add: loop_body_stop [OF clear])
  next
    case False
    then show ?thesis using Suc.prems(1) by simp
  qed
qed

lemma loop_prefix:
  "\<not> stopRequest (snd cs) \<Longrightarrow> i \<le> m \<Longrightarrow> m \<le> length vs \<Longrightarrow>
   (\<forall>j. i \<le> j \<and> j < m \<longrightarrow> \<not> stop_during_item env j \<and> \<not> (j < length vs - 1 \<and> stop_during_delay env j)) \<Longrightarrow>
   transcribe_loop rt env apiKey links vs i cs =
     transcribe_loop rt env apiKey links vs m
       (foldl (\<lambda>cs j. loop_body rt env apiKey links vs j cs) cs [i..<m])"
proof (induction m)
  case 0
  then show ?case by simp
next
  case (Suc m)
  show ?case
  proof (cases "i \<le> m")
    case True
    have clear: "\<not> stopRequest (snd (foldl (\<lambda>cs j. loop_body rt env apiKey links vs j cs) cs [i..<m]))"
      using Suc.prems by (intro bodies_flag_clear) auto
    have "transcribe_loop rt env apiKey links vs i cs =
        transcribe_loop rt env apiKey links vs m
          (foldl (\<lambda>cs j. loop_body rt env apiKey links vs j cs) cs [i..<m])"
      using Suc True by simp
    also have "\<dots> = transcribe_loop rt env apiKey links vs (m + 1)
        (loop_body rt env apiKey links vs m
           (foldl (\<lambda>cs j. loop_body rt env apiKey links vs j cs) cs [i..<m]))"
      using Suc.prems(3) clear by (intro loop_step) auto
    finally show ?thesis using True by simp
  next
    case False
    with Suc.prems(2) have "i = Suc m" by simp
    then show ?thesis by simp
  qed
qed

text \<open>Projections of the fold of the bodies.\<close>

lemma bodies_count:
  "fst (foldl (\<lambda>cs j. loop_body rt env apiKey links vs j cs) cs js) =
     fst cs + length (filter (\<lambda>j. succeeded (item_attempt rt env apiKey links vs j)) js)"
  by (induction js arbitrary: cs) (auto simp: loop_body_count)

lemma bodies_cache:
  "transcriptCache (snd (foldl (\<lambda>cs j. loop_body rt env apiKey links vs j cs) cs js)) =
     foldl (\<lambda>c j. cache_after (item_attempt rt env apiKey links vs j) (item_url rt vs j) c)
       (transcriptCache (snd cs)) js"
  by (induction js arbitrary: cs) (auto simp: loop_body_cache)

lemma bodies_states:
  "transcriptStates (snd (foldl (\<lambda>cs j. loop_body rt env apiKey links vs j cs) cs js)) =
     foldl (\<lambda>st j. st(item_url rt vs j \<mapsto> outcome_entry (item_attempt rt env apiKey links vs j)))
       (transcriptStates (snd cs)) js"
  by (induction js arbitrary: cs) (auto simp: loop_body_states)

lemma bodies_outcomes:
  "outcomes (actions (snd (foldl (\<lambda>cs j. loop_body rt env apiKey links vs j cs) cs js))) =
     outcomes (actions (snd cs)) @
       map (\<lambda>j. outcome_write (item_url rt vs j) (item_attempt rt env apiKey links vs j)) js"
  by (induction js arbitrary: cs) (auto simp: loop_body_outcomes)

lemma bodies_extends:
  "\<exists>new. actions (snd (foldl (\<lambda>cs j. loop_body rt env apiKey links vs j cs) cs js)) =
     actions (snd cs) @ new"
proof (induction js arbitrary: cs)
  case Nil
  then show ?case by simp
next
  case (Cons j js)
  obtain n1 where n1: "actions (snd (loop_body rt env apiKey links vs j cs)) = actions (snd cs) @ n1"
    using loop_body_extends by blast
  obtain n2 where "actions (snd (foldl (\<lambda>cs j. loop_body rt env apiKey links vs j cs)
      (loop_body rt env apiKey links vs j cs) js)) = actions (snd (loop_body rt env apiKey links vs j cs)) @ n2"
    using Cons by blast
  with n1 show ?case by simp
qed

lemma bodies_other:
  "isProcessing (snd (foldl (\<lambda>cs j. loop_body rt env apiKey links vs j cs) cs js)) =
     isProcessing (snd cs)"
  by (induction js arbitrary: cs) (auto simp: loop_body_other)








subsection \<open>A run that is never stopped\<close>


lemma outcomes_append: "outcomes (xs @ ys) = outcomes xs @ outcomes ys"
  by (simp add: outcomes_def)






lemma start_fields:
  "\<not> stopRequest (transcribe_start s)" "actions (transcribe_start s) = actions s"
  "transcriptCache (transcribe_start s) = transcriptCache s"
  "transcriptStates (transcribe_start s) = transcriptStates s"
  by (simp_all add: transcribe_start_def setters)

text \<open>A run in which the stop button is never pressed.\<close>

lemma run_never_stopped:
  assumes never: "\<forall>i. \<not> stop_during_item env i \<and> \<not> stop_during_delay env i"
    and some: "eligible rt s \<noteq> []"
  defines "final \<equiv> foldl (\<lambda>cs j. loop_body rt env (googleApiKey s) (mp3Links s) (eligible rt s) j cs)
      (0, transcribe_start s) [0..<length (eligible rt s)]"
  shows "handleTranscribe rt env s = (setStatus (msg_done (fst final)) (snd final))\<lparr>isProcessing := False\<rparr>"
proof -
  let ?vs = "eligible rt s"
  have clear0: "\<not> stopRequest (snd (0::nat, transcribe_start s))" by (simp add: start_fields)
  have "transcribe_loop rt env (googleApiKey s) (mp3Links s) ?vs 0 (0, transcribe_start s) =
      transcribe_loop rt env (googleApiKey s) (mp3Links s) ?vs (length ?vs) final"
    unfolding final_def using never by (intro loop_prefix [OF clear0]) auto
  also have "\<dots> = final" by (rule loop_done) simp
  finally have loop: "transcribe_loop rt env (googleApiKey s) (mp3Links s) ?vs 0 (0, transcribe_start s) = final" .
  have clear: "\<not> stopRequest (snd final)"
    unfolding final_def using never by (intro bodies_flag_clear [OF clear0]) auto
  show ?thesis
    using some clear by (simp add: handleTranscribe_def Let_def loop)
qed


subsection \<open>A run that is stopped\<close>










subsection \<open>The cache\<close>

text \<open>A transcript that reaches the cache is not empty.\<close>

lemma gemini_transcript_nonempty:
  "snd (transcribeAudioWithGemini g apiKey base64 mimeType) = Inr t \<Longrightarrow> t \<noteq> []"
  by (auto simp: transcribeAudioWithGemini_def gemini_try_def
      split: if_splits gen_response.splits option.splits sum.splits)

lemma attempt_nonempty: "attempt nw apiKey mp3Url = Inr t \<Longrightarrow> t \<noteq> []"
  by (auto simp: attempt_def dest: gemini_transcript_nonempty split: sum.splits prod.splits)

lemma cache_after_nonempty:
  "\<forall>u t. c u = Some t \<longrightarrow> t \<noteq> [] \<Longrightarrow>
   \<forall>u t. cache_after (attempt nw apiKey mp3Url) url c u = Some t \<longrightarrow> t \<noteq> []"
  by (auto simp: cache_after_def dest: attempt_nonempty split: sum.splits if_splits)

lemma loop_cache_nonempty:
  "\<forall>u t. transcriptCache (snd cs) u = Some t \<longrightarrow> t \<noteq> [] \<Longrightarrow>
   \<forall>u t. transcriptCache (snd (transcribe_loop rt env apiKey links vs i cs)) u = Some t \<longrightarrow> t \<noteq> []"
proof (induction rt env apiKey links vs i cs rule: transcribe_loop.induct)
  case (1 rt env apiKey links vs i cs)
  show ?case
  proof (cases "i < length vs")
    case False
    then show ?thesis using "1.prems" by (simp add: loop_done)
  next
    case True
    show ?thesis
    proof (cases "stopRequest (snd cs)")
      case True
      with \<open>i < length vs\<close> show ?thesis using "1.prems" by (simp add: loop_stopped setters)
    next
      case False
      have "\<forall>u t. transcriptCache (snd (loop_body rt env apiKey links vs i cs)) u = Some t \<longrightarrow> t \<noteq> []"
        unfolding loop_body_cache item_attempt_def using "1.prems" by (rule cache_after_nonempty)
      then show ?thesis
        using "1.IH" [OF True False] True False by (simp add: loop_step)
    qed
  qed
qed

lemma handleTranscribe_cache_nonempty:
  assumes "\<forall>u t. transcriptCache s u = Some t \<longrightarrow> t \<noteq> []"
  shows "\<forall>u t. transcriptCache (handleTranscribe rt env s) u = Some t \<longrightarrow> t \<noteq> []"
proof -
  have "\<forall>u t. transcriptCache (snd (0::nat, transcribe_start s)) u = Some t \<longrightarrow> t \<noteq> []"
    using assms by (simp add: start_fields)
  from loop_cache_nonempty [OF this, of rt env "googleApiKey s" "mp3Links s" "eligible rt s" 0]
  show ?thesis
    using assms by (simp add: handleTranscribe_def Let_def setters start_fields)
qed

lemma handleRetry_states:
  "has_entry (mp3Links s) (url_of rt v) \<Longrightarrow>
   transcriptStates (handleRetry rt nw v s) =
     (transcriptStates s)(url_of rt v \<mapsto>
        outcome_entry (attempt nw (googleApiKey s) (mp3_of (mp3Links s) (url_of rt v))))"
  by (simp add: handleRetry_def attempt_def outcome_entry_def setters Let_def
      split: sum.splits prod.splits)

lemma handleRetry_cache:
  "has_entry (mp3Links s) (url_of rt v) \<Longrightarrow>
   transcriptCache (handleRetry rt nw v s) =
     cache_after (attempt nw (googleApiKey s) (mp3_of (mp3Links s) (url_of rt v))) (url_of rt v)
       (transcriptCache s)"
  by (simp add: handleRetry_def attempt_def cache_after_def setters Let_def
      split: sum.splits prod.splits)

lemma handleRetry_cache_nonempty:
  assumes "\<forall>u t. transcriptCache s u = Some t \<longrightarrow> t \<noteq> []"
  shows "\<forall>u t. transcriptCache (handleRetry rt nw v s) u = Some t \<longrightarrow> t \<noteq> []"
proof (cases "has_entry (mp3Links s) (url_of rt v)")
  case True
  show ?thesis
    unfolding handleRetry_cache [OF True] using assms by (rule cache_after_nonempty)
next
  case False
  then show ?thesis using assms by (simp add: handleRetry_def Let_def setters)
qed

text \<open>
  Claim C3. The cache holds transcripts, and a transcript is never empty (both handlers
  keep it so). A video whose key has an entry in the cache is not eligible, whatever the
  audio links are; and when every video has an entry, \<open>handleTranscribe\<close> performs no
  action at all: no download and no request to the Transcriber.
\<close>
theorem cached_transcript_excludes:
  assumes transcripts: "\<forall>u t. transcriptCache s u = Some t \<longrightarrow> t \<noteq> []"
  shows "(transcriptCache s (url_of rt v) \<noteq> None \<longrightarrow> v \<notin> set (eligible rt (s\<lparr>mp3Links := links\<rparr>)))
     \<and> ((\<forall>v \<in> set (videos s). transcriptCache s (url_of rt v) \<noteq> None) \<longrightarrow>
          new_actions (s\<lparr>mp3Links := links\<rparr>) (handleTranscribe rt env (s\<lparr>mp3Links := links\<rparr>)) = [])
     \<and> (\<forall>u t. transcriptCache (handleTranscribe rt env s) u = Some t \<longrightarrow> t \<noteq> [])
     \<and> (\<forall>u t. transcriptCache (handleRetry rt nw v s) u = Some t \<longrightarrow> t \<noteq> [])"
proof -
  have cached: "has_entry (transcriptCache s) u" if "transcriptCache s u \<noteq> None" for u
    using that transcripts by (auto simp: has_entry_def split: option.splits)
  have excluded: "transcriptCache s (url_of rt v) \<noteq> None \<longrightarrow> v \<notin> set (eligible rt (s\<lparr>mp3Links := links\<rparr>))"
    using cached by (auto simp: eligible_def)
  have idle: "(\<forall>v \<in> set (videos s). transcriptCache s (url_of rt v) \<noteq> None) \<longrightarrow>
      new_actions (s\<lparr>mp3Links := links\<rparr>) (handleTranscribe rt env (s\<lparr>mp3Links := links\<rparr>)) = []"
  proof
    assume "\<forall>v \<in> set (videos s). transcriptCache s (url_of rt v) \<noteq> None"
    then have "eligible rt (s\<lparr>mp3Links := links\<rparr>) = []"
      using cached by (auto simp: eligible_def filter_empty_conv)
    then show "new_actions (s\<lparr>mp3Links := links\<rparr>) (handleTranscribe rt env (s\<lparr>mp3Links := links\<rparr>)) = []"
      by (simp add: handleTranscribe_def Let_def new_actions_def setters transcribe_start_def)
  qed
  show ?thesis
    using excluded idle handleTranscribe_cache_nonempty [OF transcripts]
      handleRetry_cache_nonempty [OF transcripts]
    by (intro conjI) blast+
qed

subsection \<open>A failed item\<close>

text \<open>
  Claim C4. When the stop button is never pressed, the run folds the outcomes of all
  eligible videos, in order, into the state: each outcome is written to the per-video
  entry of its own key, and only a transcript is written to the cache. A failed attempt
  therefore leaves the cache as it is and writes an error entry, the videos after it are
  still processed, the status reports the number of successes, and a key none of whose
  attempts succeeds keeps its cache entry.
\<close>
theorem failed_item_is_isolated:
  assumes never: "\<forall>i. \<not> stop_during_item env i \<and> \<not> stop_during_delay env i"
  shows "let vs = eligible rt s; n = length vs; s' = handleTranscribe rt env s;
             att = item_attempt rt env (googleApiKey s) (mp3Links s) vs in
     transcriptCache s' =
       foldl (\<lambda>c i. cache_after (att i) (item_url rt vs i) c) (transcriptCache s) [0..<n]
     \<and> transcriptStates s' =
       foldl (\<lambda>st i. st(item_url rt vs i \<mapsto> outcome_entry (att i))) (transcriptStates s) [0..<n]
     \<and> outcomes (new_actions s s') = map (\<lambda>i. outcome_write (item_url rt vs i) (att i)) [0..<n]
     \<and> (0 < n \<longrightarrow> status s' = msg_done (length (filter (\<lambda>i. succeeded (att i)) [0..<n])))
     \<and> (\<forall>i e c. att i = Inl e \<longrightarrow>
           cache_after (att i) (item_url rt vs i) c = c \<and>
           outcome_entry (att i) =
             \<lparr>TranscriptEntry.status = Error, TranscriptEntry.text = msg_error (catch_message e)\<rparr>)
     \<and> (\<forall>url. (\<forall>i < n. item_url rt vs i = url \<longrightarrow> \<not> succeeded (att i)) \<longrightarrow>
           transcriptCache s' url = transcriptCache s url)"
proof -
  let ?vs = "eligible rt s"
  let ?n = "length ?vs"
  let ?s' = "handleTranscribe rt env s"
  let ?att = "item_attempt rt env (googleApiKey s) (mp3Links s) ?vs"
  let ?final = "foldl (\<lambda>cs j. loop_body rt env (googleApiKey s) (mp3Links s) ?vs j cs)
      (0, transcribe_start s) [0..<?n]"
  have fields: "transcriptCache ?s' = transcriptCache (snd ?final)
      \<and> transcriptStates ?s' = transcriptStates (snd ?final)
      \<and> actions ?s' = actions (snd ?final)
      \<and> (0 < ?n \<longrightarrow> status ?s' = msg_done (fst ?final))"
  proof (cases "?vs = []")
    case True
    then show ?thesis
      by (simp add: handleTranscribe_def Let_def setters transcribe_start_def)
  next
    case False
    show ?thesis
      by (simp add: run_never_stopped [OF never False] setters)
  qed
  have cache: "transcriptCache ?s' =
      foldl (\<lambda>c i. cache_after (?att i) (item_url rt ?vs i) c) (transcriptCache s) [0..<?n]"
    using fields by (simp add: bodies_cache start_fields)
  have states: "transcriptStates ?s' =
      foldl (\<lambda>st i. st(item_url rt ?vs i \<mapsto> outcome_entry (?att i))) (transcriptStates s) [0..<?n]"
    using fields by (simp add: bodies_states start_fields)
  obtain new where new: "actions (snd ?final) = actions s @ new"
    using bodies_extends [of rt env "googleApiKey s" "mp3Links s" ?vs "(0, transcribe_start s)" "[0..<?n]"]
    by (auto simp: start_fields)
  have new_eq: "new_actions s ?s' = new"
    by (rule new_actions_append) (simp add: fields new)
  have "outcomes (actions (snd ?final)) =
      outcomes (actions s) @ map (\<lambda>i. outcome_write (item_url rt ?vs i) (?att i)) [0..<?n]"
    by (simp add: bodies_outcomes start_fields)
  then have outs: "outcomes (new_actions s ?s') =
      map (\<lambda>i. outcome_write (item_url rt ?vs i) (?att i)) [0..<?n]"
    by (simp add: new_eq new outcomes_append)
  have report: "0 < ?n \<longrightarrow> status ?s' = msg_done (length (filter (\<lambda>i. succeeded (?att i)) [0..<?n]))"
    using fields by (simp add: bodies_count)
  have failure: "\<forall>i e c. ?att i = Inl e \<longrightarrow>
      cache_after (?att i) (item_url rt ?vs i) c = c \<and>
      outcome_entry (?att i) =
        \<lparr>TranscriptEntry.status = Error, TranscriptEntry.text = msg_error (catch_message e)\<rparr>"
    by (simp add: cache_after_def outcome_entry_def)
  have untouched: "\<forall>url. (\<forall>i < ?n. item_url rt ?vs i = url \<longrightarrow> \<not> succeeded (?att i)) \<longrightarrow>
      transcriptCache ?s' url = transcriptCache s url"
  proof (intro allI impI)
    fix url
    assume fails: "\<forall>i < ?n. item_url rt ?vs i = url \<longrightarrow> \<not> succeeded (?att i)"
    have "foldl (\<lambda>c i. cache_after (?att i) (item_url rt ?vs i) c) c js url = c url"
      if "set js \<subseteq> {0..<?n}" for js c
      using that
    proof (induction js arbitrary: c)
      case Nil
      then show ?case by simp
    next
      case (Cons j js)
      then have "j < ?n" by simp
      with fails have "cache_after (?att j) (item_url rt ?vs j) c url = c url"
        by (auto simp: cache_after_def succeeded_def split: sum.splits)
      with Cons show ?case by simp
    qed
    then show "transcriptCache ?s' url = transcriptCache s url"
      by (simp add: cache)
  qed
  show ?thesis
    unfolding Let_def by (intro conjI cache states outs report failure untouched)
qed



subsection \<open>Retrying one item\<close>




subsection \<open>The mappers\<close>

lemma coalesce_defined: "defined d \<Longrightarrow> defined (coalesce a d)"
  by (auto simp: coalesce_def defined_def nullish_def)

lemma coalesce_default: "nullish a \<Longrightarrow> coalesce a d = d"
  by (simp add: coalesce_def)

lemma or_js_defined: "defined d \<Longrightarrow> defined (or_js a d)"
  by (auto simp: or_js_def defined_def truthy_def)

lemma or_js_default: "\<not> truthy a \<Longrightarrow> or_js a d = d"
  by (simp add: or_js_def)

lemma nullish_not_truthy: "nullish a \<Longrightarrow> \<not> truthy a"
  by (auto simp: nullish_def truthy_def)

lemma number_defined: "defined (times_js rt v c)" "defined (divide_js rt v c)"
  by (simp_all add: times_js_def divide_js_def defined_def split: option.splits)

lemma literal_defined: "defined (JStr x)" "defined (JNum r)" "defined (JBool b)"
  by (simp_all add: defined_def)

lemma tiktok_all_defined:
  "mapTikTokItemToSocialVideo rt rnd item = Inr v \<Longrightarrow> all_defined v"
  by (auto simp: mapTikTokItemToSocialVideo_def all_defined_def coalesce_defined literal_defined
      split: if_splits)

lemma facebook_all_defined:
  "mapFacebookItemToSocialVideo rt now item = Inr v \<Longrightarrow> all_defined v"
  by (auto simp: mapFacebookItemToSocialVideo_def all_defined_def coalesce_defined or_js_defined
      literal_defined number_defined Let_def split: if_splits sum.splits)

text \<open>
  Claim C6, with the default of the Facebook creation time as the code has it. The
  TikTok mapper returns a record for every item that is not null, and so does the
  Facebook mapper for an item without a creation time (the current time has an ISO
  text). In a record that either
  mapper returns every field is defined, and a field whose source is absent has its
  default: \<open>0\<close> for the counters and the measures of the media, \<open>N/A\<close> and \<open>false\<close> for the
  audio track, \<open>Unknown\<close> for the names of the author, \<open>0\<close> and the text of the epoch for
  the TikTok creation time, and the current time for the Facebook creation time.
\<close>
theorem mappers_fill_defaults:
  "(\<not> nullish item \<longrightarrow> (\<exists>v. mapTikTokItemToSocialVideo rt rnd item = Inr v))
   \<and> (\<not> nullish item \<and> nullish (get_prop item ''creation_time'')
        \<and> toISOString rt (JNum now) = Inr isoText \<longrightarrow>
        (\<exists>w. mapFacebookItemToSocialVideo rt now item = Inr w \<and> createTimeISO w = JStr isoText))
   \<and> (mapTikTokItemToSocialVideo rt rnd item = Inr v \<longrightarrow>
        all_defined v
        \<and> (nullish (get_prop item ''diggCount'') \<longrightarrow> diggCount v = JNum 0)
        \<and> (nullish (get_prop item ''commentCount'') \<longrightarrow> commentCount v = JNum 0)
        \<and> (nullish (get_prop item ''shareCount'') \<longrightarrow> shareCount v = JNum 0)
        \<and> (nullish (get_prop item ''playCount'') \<longrightarrow> playCount v = JNum 0)
        \<and> (nullish (get_prop (get_prop item ''videoMeta'') ''duration'') \<longrightarrow>
              duration (videoMeta v) = JNum 0)
        \<and> (nullish (get_prop (get_prop item ''videoMeta'') ''height'') \<longrightarrow>
              height (videoMeta v) = JNum 0)
        \<and> (nullish (get_prop (get_prop item ''videoMeta'') ''width'') \<longrightarrow>
              width (videoMeta v) = JNum 0)
        \<and> (nullish (get_prop (get_prop item ''musicMeta'') ''musicName'') \<longrightarrow>
              musicName (musicMeta v) = JStr ''N/A'')
        \<and> (nullish (get_prop (get_prop item ''musicMeta'') ''musicAuthor'') \<longrightarrow>
              musicAuthor (musicMeta v) = JStr ''N/A'')
        \<and> (nullish (get_prop (get_prop item ''musicMeta'') ''musicOriginal'') \<longrightarrow>
              musicOriginal (musicMeta v) = JBool False)
        \<and> (nullish (get_prop item ''createTime'') \<longrightarrow> createTime v = JNum 0)
        \<and> (nullish (get_prop item ''createTimeISO'') \<longrightarrow>
              createTimeISO v = JStr ''1970-01-01T00:00:00.000Z'')
        \<and> (nullish (get_prop item ''text'') \<longrightarrow> SocialVideo.text v = JStr [])
        \<and> (nullish (get_prop item ''webVideoUrl'') \<longrightarrow> webVideoUrl v = JStr [])
        \<and> (nullish (get_prop (get_prop item ''authorMeta'') ''name'') \<longrightarrow>
              name (authorMeta v) = JStr ''Unknown'')
        \<and> (nullish (get_prop (get_prop item ''authorMeta'') ''nickName'') \<longrightarrow>
              nickName (authorMeta v) = name (authorMeta v))
        \<and> (nullish (get_prop (get_prop item ''authorMeta'') ''avatar'') \<longrightarrow>
              avatar (authorMeta v) = JStr []))
   \<and> (mapFacebookItemToSocialVideo rt now item = Inr w \<longrightarrow>
        all_defined w
        \<and> (nullish (get_prop item ''reactions_count'') \<longrightarrow> diggCount w = JNum 0)
        \<and> (nullish (get_prop item ''comments_count'') \<longrightarrow> commentCount w = JNum 0)
        \<and> (nullish (get_prop item ''shares_count'') \<longrightarrow> shareCount w = JNum 0)
        \<and> (nullish (get_prop item ''views_count'') \<longrightarrow> playCount w = JNum 0)
        \<and> (nullish (get_prop item ''playable_duration_in_ms'') \<longrightarrow>
              duration (videoMeta w) = JNum 0)
        \<and> (nullish (get_prop item ''playback_video/height'') \<longrightarrow> height (videoMeta w) = JNum 0)
        \<and> (nullish (get_prop item ''playback_video/width'') \<longrightarrow> width (videoMeta w) = JNum 0)
        \<and> (nullish (get_prop item ''track_title'') \<longrightarrow> musicName (musicMeta w) = JStr ''N/A'')
        \<and> (nullish (get_prop item ''video_owner/name'') \<longrightarrow>
              musicAuthor (musicMeta w) = JStr ''N/A'')
        \<and> (nullish (get_prop item ''is_original_audio_on_facebook'') \<longrightarrow>
              musicOriginal (musicMeta w) = JBool False)
        \<and> (nullish (get_prop item ''creation_time'') \<longrightarrow> createTime w = JNum now)
        \<and> (nullish (get_prop item ''message'') \<longrightarrow> SocialVideo.text w = JStr [])
        \<and> (nullish (get_prop item ''video_owner/name'') \<longrightarrow>
              name (authorMeta w) = JStr ''Unknown'' \<and> nickName (authorMeta w) = JStr ''Unknown'')
        \<and> (nullish (get_prop item ''video_owner/profile_pic_url'') \<longrightarrow>
              avatar (authorMeta w) = JStr []))"
proof (intro conjI impI)
  assume "\<not> nullish item"
  then show "\<exists>v. mapTikTokItemToSocialVideo rt rnd item = Inr v"
    by (simp add: mapTikTokItemToSocialVideo_def)
next
  assume "\<not> nullish item \<and> nullish (get_prop item ''creation_time'')
      \<and> toISOString rt (JNum now) = Inr isoText"
  then show "\<exists>w. mapFacebookItemToSocialVideo rt now item = Inr w \<and> createTimeISO w = JStr isoText"
    by (simp add: mapFacebookItemToSocialVideo_def Let_def nullish_not_truthy)
next
  assume "mapTikTokItemToSocialVideo rt rnd item = Inr v"
  then show "all_defined v" by (rule tiktok_all_defined)
next
  assume "mapFacebookItemToSocialVideo rt now item = Inr w"
  then show "all_defined w" by (rule facebook_all_defined)
qed (auto simp: mapTikTokItemToSocialVideo_def mapFacebookItemToSocialVideo_def Let_def
    coalesce_default nullish_not_truthy split: if_splits sum.splits)


subsection \<open>The scan\<close>

text \<open>
  Claim C7, as the code has it. When the URL parses, the handle is the first segment of
  its path that begins with \<open>@\<close>, without the \<open>@\<close>, and the trimmed input when no segment
  does. When the URL does not parse, the handle is the trimmed input without its leading
  \<open>@\<close>, if it has one. The request to the scraper carries that handle.
\<close>
theorem tiktok_handle_is_first_at_segment:
  "(URL_pathname rt u = Some p \<and> split_js (CHR ''/'') p = before @ (CHR ''@'' # h) # after
      \<and> (\<forall>part \<in> set before. \<not> startsWith part ''@'')
      \<longrightarrow> profile_name rt u = h)
   \<and> (URL_pathname rt u = Some p \<and> (\<forall>part \<in> set (split_js (CHR ''/'') p). \<not> startsWith part ''@'')
      \<longrightarrow> profile_name rt u = trim rt u)
   \<and> (URL_pathname rt u = None
      \<longrightarrow> profile_name rt u =
            (if startsWith (trim rt u) ''@'' then drop 1 (trim rt u) else trim rt u))
   \<and> (token \<noteq> [] \<and> u \<noteq> []
      \<longrightarrow> fst (fetchTikTokData rt senv token u limit) = [ApifyTikTok token (profile_name rt u) limit])"
proof (intro conjI impI)
  assume a: "URL_pathname rt u = Some p \<and> split_js (CHR ''/'') p = before @ (CHR ''@'' # h) # after
      \<and> (\<forall>part \<in> set before. \<not> startsWith part ''@'')"
  then have "filter (\<lambda>part. part \<noteq> [] \<and> startsWith part ''@'') before = []"
    by (auto simp: filter_empty_conv)
  with a show "profile_name rt u = h"
    by (simp add: profile_name_def)
next
  assume a: "URL_pathname rt u = Some p \<and> (\<forall>part \<in> set (split_js (CHR ''/'') p). \<not> startsWith part ''@'')"
  then have "filter (\<lambda>part. part \<noteq> [] \<and> startsWith part ''@'') (split_js (CHR ''/'') p) = []"
    by (auto simp: filter_empty_conv)
  with a show "profile_name rt u = trim rt u"
    by (simp add: profile_name_def)
next
  assume "URL_pathname rt u = None"
  then show "profile_name rt u =
      (if startsWith (trim rt u) ''@'' then drop 1 (trim rt u) else trim rt u)"
    by (simp add: profile_name_def)
next
  assume "token \<noteq> [] \<and> u \<noteq> []"
  then show "fst (fetchTikTokData rt senv token u limit) = [ApifyTikTok token (profile_name rt u) limit]"
    by (simp add: fetchTikTokData_def)
qed

text \<open>
  Claim C8. When the trimmed, lower-cased channel URL contains none of \<open>tiktok.com\<close>,
  \<open>facebook.com\<close> and \<open>fb.com\<close>, the scan ends with the unsupported-URL error in the status
  and has performed no action: no request has been made, the list of videos is empty and
  the step has not advanced.
\<close>
theorem unsupported_url_fails_before_any_request:
  assumes "\<not> includes_js (toLowerCase rt (trim rt (channelUrl s))) ''tiktok.com''"
    and "\<not> includes_js (toLowerCase rt (trim rt (channelUrl s))) ''facebook.com''"
    and "\<not> includes_js (toLowerCase rt (trim rt (channelUrl s))) ''fb.com''"
  shows "let s' = handleScan rt senv s in
     s' = s\<lparr>videos := [], status := msg_scan_error msg_unsupported_url, isProcessing := False\<rparr>
     \<and> new_actions s s' = []
     \<and> status s' = msg_scan_error msg_unsupported_url
     \<and> videos s' = []
     \<and> step s' = step s
     \<and> \<not> isProcessing s'"
  using assms
  by (simp add: handleScan_def scan_fetch_def Let_def setters scan_message_def new_actions_def)

subsection \<open>The Transcriber\<close>

lemma quota_message_is_quota: "is_quota_message msg_quota"
  by code_simp

lemma no_transcript_unclassified:
  "\<not> is_quota_message msg_no_transcript" "\<not> is_invalid_key_message msg_no_transcript"
  by code_simp+

text \<open>
  Claim C5, with the credential marker that the code uses. Without a key the Transcriber
  fails with the key-required error and makes no request. With a key: a response with no
  transcript, or an empty one, fails with the no-transcript message, which neither
  marker matches; a rejection whose message contains \<open>429\<close>, or (ignoring case) \<open>rate limit\<close> or
  \<open>quota\<close>, gives the quota error; otherwise a message that contains (ignoring case)
  \<open>API_KEY_INVALID\<close>, or \<open>400\<close>, gives the invalid-credential error; any other message is
  forwarded as it is, and is then never equal to the quota message; a rejection that is not
  an \<^verbatim>\<open>Error\<close> is reported with the fixed unknown-error message.
\<close>
theorem transcriber_failure_priority:
  fixes generateContent :: gemini
  shows
  "transcribeAudioWithGemini generateContent [] media mime = ([], Inl (ErrorObj msg_key_required))
   \<and> (key \<noteq> [] \<and> generateContent key mime media \<in> {GenResolves None, GenResolves (Some [])}
        \<longrightarrow> snd (transcribeAudioWithGemini generateContent key media mime)
              = Inl (ErrorObj msg_no_transcript))
   \<and> (key \<noteq> [] \<and> generateContent key mime media = GenRejects (ErrorObj msg)
        \<and> (includes_js msg ''429'' \<or> test_i ''rate limit'' msg \<or> test_i ''quota'' msg)
        \<longrightarrow> snd (transcribeAudioWithGemini generateContent key media mime)
              = Inl (ErrorObj msg_quota))
   \<and> (key \<noteq> [] \<and> generateContent key mime media = GenRejects (ErrorObj msg)
        \<and> \<not> (includes_js msg ''429'' \<or> test_i ''rate limit'' msg \<or> test_i ''quota'' msg)
        \<and> (test_i ''API_KEY_INVALID'' msg \<or> includes_js msg ''400'')
        \<longrightarrow> snd (transcribeAudioWithGemini generateContent key media mime)
              = Inl (ErrorObj msg_invalid_key))
   \<and> (key \<noteq> [] \<and> generateContent key mime media = GenRejects (ErrorObj msg)
        \<and> \<not> (includes_js msg ''429'' \<or> test_i ''rate limit'' msg \<or> test_i ''quota'' msg)
        \<and> \<not> (test_i ''API_KEY_INVALID'' msg \<or> includes_js msg ''400'')
        \<longrightarrow> snd (transcribeAudioWithGemini generateContent key media mime) = Inl (ErrorObj msg)
            \<and> msg \<noteq> msg_quota)
   \<and> (key \<noteq> [] \<and> generateContent key mime media = GenRejects (NonError rendering)
        \<longrightarrow> snd (transcribeAudioWithGemini generateContent key media mime)
              = Inl (ErrorObj msg_unknown_gemini))"
proof -
  have quota: "is_quota_message msg_quota" by (rule quota_message_is_quota)
  have unknown: "\<not> is_quota_message msg_unknown_gemini" "\<not> is_invalid_key_message msg_unknown_gemini"
    by code_simp+
  show ?thesis
    using quota unknown no_transcript_unclassified
    by (auto simp: transcribeAudioWithGemini_def gemini_try_def gemini_catch_def
        is_quota_message_def is_invalid_key_message_def)
qed

section \<open>Concrete runs\<close>

lemma example_url: "url_of example_rt (example_video ident url) = url"
  by (simp add: url_of_def to_str_def example_video_def)

lemma example_eligible:
  "eligible example_rt example_app = [example_video ''1'' ''A'', example_video ''2'' ''B'']"
  by (simp add: eligible_def example_app_def example_url has_entry_def)

lemma example_ok_attempt: "t \<noteq> [] \<Longrightarrow> attempt (network_ok t) ''key'' mp3Url = Inr t"
  by (simp add: attempt_def network_ok_def getBase64FromUrl_def transcribeAudioWithGemini_def
      gemini_try_def)

lemma example_down_attempt:
  "attempt network_down ''key'' mp3Url = Inl (ErrorObj msg_download_failed)"
  by (simp add: attempt_def network_down_def getBase64FromUrl_def)

lemma xin_chao_nonempty: "xin_chao \<noteq> []"
  by (simp add: xin_chao_def)

lemma example_attempts:
  "item_attempt example_rt example_env ''key'' links vs 0 = Inr xin_chao"
  "item_attempt example_rt example_env ''key'' links vs (Suc 0) = Inl (ErrorObj msg_download_failed)"
  "item_attempt example_rt example_env_stopped ''key'' links vs 0 = Inr xin_chao"
  by (simp_all add: item_attempt_def example_env_def example_env_stopped_def example_ok_attempt
      example_down_attempt xin_chao_nonempty)

lemma example_fields:
  "googleApiKey example_app = ''key''"
  "mp3Links example_app = [''A'' \<mapsto> ''https://audio.example/a.mp3'', ''B'' \<mapsto> ''https://audio.example/b.mp3'']"
  "transcriptCache example_app = Map.empty"
  "transcriptStates example_app = Map.empty"
  by (simp_all add: example_app_def)

lemma example_items:
  "item_url example_rt [example_video ''1'' ''A'', example_video ''2'' ''B''] 0 = ''A''"
  "item_url example_rt [example_video ''1'' ''A'', example_video ''2'' ''B''] (Suc 0) = ''B''"
  "item_mp3 example_rt [''A'' \<mapsto> ''https://audio.example/a.mp3'', ''B'' \<mapsto> ''https://audio.example/b.mp3'']
     [example_video ''1'' ''A'', example_video ''2'' ''B''] 0 = ''https://audio.example/a.mp3''"
  "item_mp3 example_rt [''A'' \<mapsto> ''https://audio.example/a.mp3'', ''B'' \<mapsto> ''https://audio.example/b.mp3'']
     [example_video ''1'' ''A'', example_video ''2'' ''B''] (Suc 0) = ''https://audio.example/b.mp3''"
  by (simp_all add: item_url_def item_mp3_def mp3_of_def example_url)

lemma upt_two: "[0..<2] = [0, Suc 0]"
  by (simp add: upt_rec numeral_2_eq_2)





theorem failed_item_is_isolated_witness:
  "(\<forall>i. \<not> stop_during_item example_env i \<and> \<not> stop_during_delay example_env i)
   \<and> transcriptCache (handleTranscribe example_rt example_env example_app) = [''A'' \<mapsto> xin_chao]
   \<and> transcriptStates (handleTranscribe example_rt example_env example_app) =
       [''A'' \<mapsto> \<lparr>TranscriptEntry.status = Success, TranscriptEntry.text = xin_chao\<rparr>,
        ''B'' \<mapsto> \<lparr>TranscriptEntry.status = Error,
                 TranscriptEntry.text = msg_error msg_download_failed\<rparr>]
   \<and> status (handleTranscribe example_rt example_env example_app) = msg_done 1"
proof -
  have never: "\<forall>i. \<not> stop_during_item example_env i \<and> \<not> stop_during_delay example_env i"
    by (simp add: example_env_def)
  show ?thesis
    using never failed_item_is_isolated [OF never, of example_rt example_app]
    by (simp add: Let_def example_eligible example_items example_attempts example_fields
        upt_two succeeded_def cache_after_def outcome_entry_def catch_message_def)
qed

lemmas example_states = example_app_def example_cached_app_def example_error_app_def
  example_unlinked_app_def

theorem cached_transcript_excludes_witness:
  "transcriptCache example_cached_app = [''A'' \<mapsto> xin_chao, ''B'' \<mapsto> ''hello'']
   \<and> xin_chao \<noteq> [] \<and> ''hello'' \<noteq> []
   \<and> example_video ''1'' ''A'' \<notin>
       set (eligible example_rt (example_cached_app\<lparr>mp3Links := [''A'' \<mapsto> ''https://other.example/a.mp3'']\<rparr>))
   \<and> new_actions (example_cached_app\<lparr>mp3Links := [''A'' \<mapsto> ''https://other.example/a.mp3'']\<rparr>)
        (handleTranscribe example_rt example_env
           (example_cached_app\<lparr>mp3Links := [''A'' \<mapsto> ''https://other.example/a.mp3'']\<rparr>)) = []"
proof -
  have cache: "transcriptCache example_cached_app = [''A'' \<mapsto> xin_chao, ''B'' \<mapsto> ''hello'']"
    by (simp add: example_states)
  have transcripts: "\<forall>u t. transcriptCache example_cached_app u = Some t \<longrightarrow> t \<noteq> []"
    by (auto simp: cache xin_chao_nonempty split: if_splits)
  have vids: "videos example_cached_app = [example_video ''1'' ''A'', example_video ''2'' ''B'']"
    by (simp add: example_states)
  show ?thesis
    using cached_transcript_excludes [OF transcripts, of example_rt "example_video ''1'' ''A''"
        "[''A'' \<mapsto> ''https://other.example/a.mp3'']" example_env]
    by (simp add: cache vids example_url xin_chao_nonempty)
qed



theorem unsupported_url_witness:
  "\<not> includes_js (toLowerCase example_rt (trim example_rt (channelUrl example_scan_app))) ''tiktok.com''
   \<and> \<not> includes_js (toLowerCase example_rt (trim example_rt (channelUrl example_scan_app))) ''facebook.com''
   \<and> \<not> includes_js (toLowerCase example_rt (trim example_rt (channelUrl example_scan_app))) ''fb.com''
   \<and> new_actions example_scan_app (handleScan example_rt example_scan_env example_scan_app) = []
   \<and> status (handleScan example_rt example_scan_env example_scan_app) = msg_scan_error msg_unsupported_url
   \<and> step (handleScan example_rt example_scan_env example_scan_app) = Scan"
proof -
  have url: "toLowerCase example_rt (trim example_rt (channelUrl example_scan_app)) = ''https://example.org/channel''"
    by (simp add: example_scan_app_def example_app_def example_rt_def ascii_trim_def ascii_space_def ascii_lower_def)
  have a: "\<not> includes_js (toLowerCase example_rt (trim example_rt (channelUrl example_scan_app))) ''tiktok.com''"
    and b: "\<not> includes_js (toLowerCase example_rt (trim example_rt (channelUrl example_scan_app))) ''facebook.com''"
    and c: "\<not> includes_js (toLowerCase example_rt (trim example_rt (channelUrl example_scan_app))) ''fb.com''"
    unfolding url by simp_all
  have st: "step example_scan_app = Scan" by (simp add: example_scan_app_def example_app_def)
  show ?thesis
    using a b c unsupported_url_fails_before_any_request [OF a b c, of example_scan_env]
    by (simp add: Let_def st new_actions_def)
qed

theorem transcriber_failure_priority_witness:
  "includes_js ''got status: 429 Too Many Requests'' ''429''
   \<and> snd (transcribeAudioWithGemini
            (\<lambda>apiKey mimeType base64. GenRejects (ErrorObj ''got status: 429 Too Many Requests''))
            ''key'' ''QUJD'' ''audio/mpeg'') = Inl (ErrorObj msg_quota)
   \<and> msg_quota \<noteq> ''got status: 429 Too Many Requests''"
proof -
  have marker: "includes_js ''got status: 429 Too Many Requests'' ''429''"
    by simp
  have differ: "msg_quota \<noteq> ''got status: 429 Too Many Requests''"
    by (simp add: msg_quota_def)
  show ?thesis
    using marker differ
      transcriber_failure_priority [where generateContent =
          "\<lambda>apiKey mimeType base64. GenRejects (ErrorObj ''got status: 429 Too Many Requests'')"
        and key = "''key''" and media = "''QUJD''" and mime = "''audio/mpeg''"
        and msg = "''got status: 429 Too Many Requests''"]
    by simp
qed

text \<open>
  A rejection whose message contains the words \<open>invalid API key\<close> (ignoring case), and
  neither \<open>API_KEY_INVALID\<close> nor \<open>400\<close>, is forwarded as it is: it does not become the
  invalid-credential error.
\<close>

theorem invalid_api_key_text_counterexample:
  "test_i ''invalid API key'' ''Invalid API key provided''
   \<and> snd (transcribeAudioWithGemini
            (\<lambda>apiKey mimeType base64. GenRejects (ErrorObj ''Invalid API key provided''))
            ''key'' ''QUJD'' ''audio/mpeg'') = Inl (ErrorObj ''Invalid API key provided'')
   \<and> ErrorObj ''Invalid API key provided'' \<noteq> ErrorObj msg_invalid_key"
  by (simp add: transcribeAudioWithGemini_def gemini_try_def gemini_catch_def
      is_quota_message_def is_invalid_key_message_def test_i_def canonicalize_def
      msg_invalid_key_def)

theorem mappers_fill_defaults_witness:
  "\<not> nullish (JObj [])
   \<and> mapTikTokItemToSocialVideo example_rt ''0.5'' (JObj []) = Inr (example_video ''fallback-0.5'' [])
   \<and> all_defined (example_video ''fallback-0.5'' [])
   \<and> mapFacebookItemToSocialVideo example_rt 1700000000000 example_facebook_item =
       Inr example_facebook_video
   \<and> all_defined example_facebook_video
   \<and> diggCount example_facebook_video = JNum 0
   \<and> musicName (musicMeta example_facebook_video) = JStr ''N/A''
   \<and> createTime example_facebook_video = JNum 1700000000000"
proof -
  have tiktok: "mapTikTokItemToSocialVideo example_rt ''0.5'' (JObj []) = Inr (example_video ''fallback-0.5'' [])"
    by (simp add: mapTikTokItemToSocialVideo_def example_video_def nullish_def coalesce_def
        get_prop_def)
  have facebook: "mapFacebookItemToSocialVideo example_rt 1700000000000 example_facebook_item =
      Inr example_facebook_video"
    by (simp add: mapFacebookItemToSocialVideo_def example_facebook_item_def
        example_facebook_video_def example_video_def example_rt_def nullish_def coalesce_def
        or_js_def truthy_def get_prop_def Let_def)
  have absent: "nullish (get_prop example_facebook_item k)"
    if "k \<noteq> ''video_id''" "k \<noteq> ''shareable_url''" for k
    using that by (simp add: example_facebook_item_def get_prop_def nullish_def)
  have object: "\<not> nullish (JObj [])" by (simp add: nullish_def)
  show ?thesis
    using tiktok facebook object
      mappers_fill_defaults [where item = "JObj []" and rt = example_rt and rnd = "''0.5''"
        and v = "example_video ''fallback-0.5'' []" and now = 0 and w = example_facebook_video]
      mappers_fill_defaults [where item = example_facebook_item and rt = example_rt
        and rnd = "''0.5''" and v = "example_video ''fallback-0.5'' []"
        and now = 1700000000000 and w = example_facebook_video]
    by (simp add: absent)
qed

text \<open>
  For a Facebook post without a creation time, the creation time of the record is the
  current time, not \<open>0\<close>.
\<close>

theorem facebook_creation_time_counterexample:
  "nullish (get_prop example_facebook_item ''creation_time'')
   \<and> mapFacebookItemToSocialVideo example_rt 1700000000000 example_facebook_item =
       Inr example_facebook_video
   \<and> createTime example_facebook_video = JNum 1700000000000
   \<and> createTime example_facebook_video \<noteq> JNum 0"
  by (simp add: mapFacebookItemToSocialVideo_def example_facebook_item_def
      example_facebook_video_def example_video_def example_rt_def nullish_def coalesce_def
      or_js_def truthy_def get_prop_def Let_def)

lemma example_pathname:
  "URL_pathname example_rt example_tiktok_url = Some ''/@alice/video/@bob''"
  by (simp add: example_rt_def example_tiktok_url_def)

lemma example_segments:
  "split_js (CHR ''/'') ''/@alice/video/@bob'' = [[]] @ (CHR ''@'' # ''alice'') # [''video'', ''@bob'']"
  by simp

theorem tiktok_handle_witness:
  "URL_pathname example_rt example_tiktok_url = Some ''/@alice/video/@bob''
   \<and> split_js (CHR ''/'') ''/@alice/video/@bob'' = [[], ''@alice'', ''video'', ''@bob'']
   \<and> profile_name example_rt example_tiktok_url = ''alice''
   \<and> fst (fetchTikTokData example_rt example_scan_env ''token'' example_tiktok_url 20) =
       [ApifyTikTok ''token'' ''alice'' 20]"
proof -
  have nonempty: "example_tiktok_url \<noteq> []" by (simp add: example_tiktok_url_def)
  show ?thesis
    using example_pathname example_segments nonempty
      tiktok_handle_is_first_at_segment [where rt = example_rt and u = example_tiktok_url
        and p = "''/@alice/video/@bob''" and before = "[[]]" and h = "''alice''"
        and after = "[''video'', ''@bob'']" and token = "''token''" and senv = example_scan_env
        and limit = 20]
    by simp
qed

text \<open>
  For a path with two segments that begin with \<open>@\<close>, the handle sent is taken from the
  first, where the words of the specification give the last.
\<close>

theorem last_segment_counterexample:
  "profile_name example_rt example_tiktok_url = ''alice''
   \<and> handle_as_specified example_rt example_tiktok_url = ''bob''
   \<and> profile_name example_rt example_tiktok_url \<noteq> handle_as_specified example_rt example_tiktok_url"
  by (simp add: profile_name_def handle_as_specified_def example_pathname)

end
